theory Spec2Isabelle
  imports Main
begin

section \<open>Strings\<close>

text \<open>
  JavaScript strings are modelled as HOL strings, whose characters are bytes: the model
  is of ASCII text. \<open>toLowerCase\<close> maps the letters \<open>A\<close>..\<open>Z\<close> to \<open>a\<close>..\<open>z\<close> and leaves
  every other character alone, which is \<open>String.prototype.toLowerCase\<close> on ASCII text only
  (the JavaScript function also folds the capitals outside ASCII; on such text the cache
  keys and the search decision of the program can differ from the ones computed here).
  \<open>includesStr\<close> is \<open>String.prototype.includes\<close>, the test for a contiguous substring.
  A string is truthy when it is not empty.
\<close>

definition toLowerChar :: "char \<Rightarrow> char" where
  "toLowerChar c =
     (case map_of (zip ''ABCDEFGHIJKLMNOPQRSTUVWXYZ'' ''abcdefghijklmnopqrstuvwxyz'') c of
        Some l \<Rightarrow> l
      | None \<Rightarrow> c)"

definition toLowerCase :: "string \<Rightarrow> string" where
  "toLowerCase s = map toLowerChar s"

fun startsWith :: "string \<Rightarrow> string \<Rightarrow> bool" where
  "startsWith s [] = True"
| "startsWith [] (p # ps) = False"
| "startsWith (c # cs) (p # ps) = (c = p \<and> startsWith cs ps)"

fun includesStr :: "string \<Rightarrow> string \<Rightarrow> bool" where
  "includesStr [] sub = (sub = [])"
| "includesStr (c # cs) sub = (startsWith (c # cs) sub \<or> includesStr cs sub)"

definition isSet :: "string option \<Rightarrow> bool" where
  "isSet k = (case k of None \<Rightarrow> False | Some s \<Rightarrow> s \<noteq> [])"

definition orEmpty :: "string option \<Rightarrow> string" where
  "orEmpty k = (case k of None \<Rightarrow> [] | Some s \<Rightarrow> s)"


section \<open>Data model\<close>

text \<open>The typed frames of the event stream (\<open>JSON.stringify\<close> of an object with a \<open>type\<close>).\<close>

datatype event =
    Metadata bool string "string list" bool
  | Chunk string
  | Error string
  | End

text \<open>
  A chat model client: the LangChain class, the model identifier and ten times the
  temperature (\<open>0.2\<close> is \<open>2\<close>, \<open>0.7\<close> is \<open>7\<close>).
\<close>

datatype vendor = ChatOpenAI | ChatGoogleGenerativeAI | ChatAnthropic

datatype client = Client vendor string nat

datatype role = System | Human

type_synonym message = "role \<times> string"

text \<open>
  What an incremental generation call does: the \<open>content\<close> of each chunk it delivers, in
  order (a missing content is the empty string, both are falsy), and the message of the
  error it throws afterwards, if it throws. A call that fails when it is opened delivers
  no chunk.
\<close>

type_synonym stream_outcome = "string list \<times> string option"

record api_keys =
  key_openai :: "string option"
  key_google :: "string option"
  key_anthropic :: "string option"
  key_perplexity :: "string option"

text \<open>The Perplexity side: the raw response, \<open>SearchResult\<close>, the tool and its cache.\<close>

datatype citation = Citation (url: "string option")

record perplexity_data =
  choice_content :: "string option"
  data_citations :: "citation list option"

record SearchResult =
  content :: string
  sources :: "string list"
  citations :: "citation list"

record perplexity_entry =
  pe_data :: SearchResult
  pe_timestamp :: int

record PerplexitySearchTool =
  pt_apiKey :: "string option"
  pt_cache :: "string \<rightharpoonup> perplexity_entry"
  pt_cacheTTL :: int

text \<open>The Google grounding side.\<close>

record citationSource =
  uri :: "string option"
  title :: "string option"

record citationMetadata =
  citationSources :: "citationSource list option"

datatype google_error = GoogleGenerativeAIFetchError string | OtherError string

record google_entry =
  ge_data :: string
  ge_timestamp :: int
  ge_citations :: "citationMetadata option"

record GoogleGroundingTool =
  gt_apiKey :: "string option"
  gt_cache :: "string \<rightharpoonup> google_entry"
  gt_cacheTTL :: int

text \<open>The agent: its model registry, its tools and the dispatcher-level search cache.\<close>

record cached_data =
  cd_content :: string
  cd_sources :: "string list"
  cd_toolUsed :: string

record cache_entry =
  ce_data :: cached_data
  ce_timestamp :: int

record agent =
  apiKeys :: api_keys
  models :: "string \<rightharpoonup> client"
  perplexity_web_search :: "PerplexitySearchTool option"
  google_search_grounding :: "GoogleGroundingTool option"
  searchCache :: "string \<rightharpoonup> cache_entry"
  searchCacheTTL :: int

text \<open>
  Everything outside the program during one request: the four readings of \<open>Date.now()\<close>
  (the dispatcher's cache check, the tool's cache check, the tool's cache write, the
  dispatcher's cache write), the outcome of the Perplexity HTTP call (\<open>Inl\<close> is the text that
  \<open>error.response?.status || error.message\<close> renders to), the outcome of the Gemini
  grounded generation, the outcome of \<open>stream\<close> on a client and a prompt, and what the
  constructors of the three LangChain chat classes do with a model identifier given by the
  caller: they are library code, so \<open>new_client\<close> is a parameter, with \<open>Inl\<close> the message of
  the error the constructor throws and \<open>Inr\<close> the model identifier the new client holds.
\<close>

record env =
  now_lookup :: int
  now_tool :: int
  now_tool_store :: int
  now_store :: int
  perplexity_api :: "string \<Rightarrow> string + perplexity_data"
  google_api :: "string \<Rightarrow> google_error + (string \<times> citationMetadata option)"
  llm_stream :: "client \<Rightarrow> message list \<Rightarrow> stream_outcome"
  new_client :: "vendor \<Rightarrow> string \<Rightarrow> string + string"

text \<open>
  The calls a request makes on its collaborators, in order: model resolution, a search
  tool's \<open>_call\<close> (tool name, query), an upstream search request (tool name, query) and an
  incremental generation call.
\<close>

datatype call =
    GetLLM string string
  | ToolCall string string
  | ApiCall string string
  | StreamCall client "message list"


section \<open>Construction of the agent\<close>

definition initializeModels :: "api_keys \<Rightarrow> (string \<rightharpoonup> client)" where
  "initializeModels ks =
     (let m0 = Map.empty;
          m1 = (if isSet (key_openai ks)
                then m0(''openai_capable'' \<mapsto> Client ChatOpenAI ''gpt-4-turbo'' 2,
                        ''openai_fast'' \<mapsto> Client ChatOpenAI ''gpt-3.5-turbo'' 7)
                else m0);
          m2 = (if isSet (key_google ks)
                then m1(''google_capable'' \<mapsto> Client ChatGoogleGenerativeAI ''gemini-2.5-pro'' 2,
                        ''google_fast'' \<mapsto> Client ChatGoogleGenerativeAI ''gemini-2.5-pro'' 7)
                else m1);
          m3 = (if isSet (key_anthropic ks)
                then m2(''anthropic_capable'' \<mapsto> Client ChatAnthropic ''claude-3-sonnet-20240229'' 2,
                        ''anthropic_fast'' \<mapsto> Client ChatAnthropic ''claude-3-haiku-20240307'' 7)
                else m2)
      in m3)"

definition newPerplexitySearchTool :: "string option \<Rightarrow> PerplexitySearchTool" where
  "newPerplexitySearchTool k =
     \<lparr>pt_apiKey = (if isSet k then k else None), pt_cache = Map.empty, pt_cacheTTL = 5 * 60 * 1000\<rparr>"

definition newGoogleGroundingTool :: "string option \<Rightarrow> GoogleGroundingTool" where
  "newGoogleGroundingTool k =
     \<lparr>gt_apiKey = (if isSet k then k else None), gt_cache = Map.empty, gt_cacheTTL = 5 * 60 * 1000\<rparr>"

definition newLangChainChatAgent :: "api_keys \<Rightarrow> agent" where
  "newLangChainChatAgent ks =
     \<lparr>apiKeys = ks,
      models = initializeModels ks,
      perplexity_web_search =
        (if isSet (key_perplexity ks) then Some (newPerplexitySearchTool (key_perplexity ks)) else None),
      google_search_grounding =
        (if isSet (key_google ks) then Some (newGoogleGroundingTool (key_google ks)) else None),
      searchCache = Map.empty,
      searchCacheTTL = 5 * 60 * 1000\<rparr>"


section \<open>Model registry\<close>

text \<open>
  \<open>_getLLM\<close>. \<open>Inr None\<close> is the \<open>null\<close> (or \<open>undefined\<close>) it returns for an unknown
  provider; \<open>Inl\<close> is the message of the error thrown by the constructor it calls for a
  model identifier that is not one of the defaults. The clients of the registry were built at
  start-up from the default identifiers.
\<close>

definition newClient :: "env \<Rightarrow> vendor \<Rightarrow> string \<Rightarrow> string + client option" where
  "newClient env v modelName =
     (case new_client env v modelName of
        Inl thrown \<Rightarrow> Inl thrown
      | Inr held \<Rightarrow> Inr (Some (Client v held 2)))"

definition getLLM :: "agent \<Rightarrow> env \<Rightarrow> string \<Rightarrow> string \<Rightarrow> string + client option" where
  "getLLM a env modelProvider modelName =
     (if models a (modelProvider @ ''_capable'') = None \<and> models a (modelProvider @ ''_fast'') = None
      then Inr None
      else if includesStr modelName ''fast'' then Inr (models a (modelProvider @ ''_fast''))
      else if modelProvider = ''openai'' \<and> modelName \<noteq> ''gpt-4-turbo'' \<and> modelName \<noteq> ''gpt-3.5-turbo''
      then newClient env ChatOpenAI modelName
      else if modelProvider = ''google'' \<and> modelName \<noteq> ''gemini-2.5-pro'' \<and> modelName \<noteq> ''gemini-2.5-pro''
      then newClient env ChatGoogleGenerativeAI modelName
      else if modelProvider = ''anthropic'' \<and> modelName \<noteq> ''claude-3-sonnet-20240229''
              \<and> modelName \<noteq> ''claude-3-haiku-20240307''
      then newClient env ChatAnthropic modelName
      else Inr (models a (modelProvider @ ''_capable'')))"


section \<open>Search decision\<close>

definition timeSensitiveKeywords :: "string list" where
  "timeSensitiveKeywords =
     [''latest'', ''current'', ''recent'', ''news'', ''today'', ''yesterday'', ''now'',
      ''breaking'', ''update'', ''2024'', ''2025'']"

definition shouldSearchWeb :: "string \<Rightarrow> bool" where
  "shouldSearchWeb userInput =
     (let lowerInput = toLowerCase userInput in
      if includesStr lowerInput ''search for'' \<or> includesStr lowerInput ''look up''
         \<or> includesStr lowerInput ''find information on'' \<or> includesStr lowerInput ''web search for''
      then True
      else if list_ex (\<lambda>keyword. includesStr lowerInput keyword) timeSensitiveKeywords
      then True
      else if includesStr lowerInput ''who is the current'' \<or> includesStr lowerInput ''what is the stock price''
         \<or> includesStr lowerInput ''weather in'' \<or> includesStr lowerInput ''election results''
         \<or> includesStr lowerInput ''current events'' \<or> includesStr lowerInput ''what's happening''
      then True
      else False)"


section \<open>Search tools\<close>

text \<open>
  \<open>PerplexitySearchAgent._parseSearchResult\<close> and \<open>searchWeb\<close>. A throw is the \<open>Inl\<close> of
  the error's message; the second component lists the upstream requests made.
\<close>

definition parseSearchResult :: "perplexity_data \<Rightarrow> SearchResult" where
  "parseSearchResult d =
     (let cits = (case data_citations d of None \<Rightarrow> [] | Some cs \<Rightarrow> cs) in
      \<lparr>content = orEmpty (choice_content d),
       sources = filter (\<lambda>u. u \<noteq> []) (map (\<lambda>c. orEmpty (url c)) cits),
       citations = cits\<rparr>)"

definition searchWeb :: "string option \<Rightarrow> env \<Rightarrow> string \<Rightarrow> (string + SearchResult) \<times> call list" where
  "searchWeb apiKey env query =
     (if \<not> isSet apiKey
      then (Inl ''Perplexity API key is not set. Cannot perform search.'', [])
      else (case perplexity_api env query of
              Inr d \<Rightarrow> (Inr (parseSearchResult d), [ApiCall ''perplexity_web_search'' query])
            | Inl e \<Rightarrow> (Inl (''Perplexity API error: '' @ e), [ApiCall ''perplexity_web_search'' query])))"

text \<open>\<open>PerplexitySearchTool._call\<close>: the returned content or the thrown message, the tool
  afterwards, and the upstream requests made.\<close>

definition PerplexitySearchTool_call ::
  "PerplexitySearchTool \<Rightarrow> env \<Rightarrow> string \<Rightarrow> (string + string) \<times> PerplexitySearchTool \<times> call list" where
  "PerplexitySearchTool_call t env query =
     (let cacheKey = toLowerCase query;
          live = (case searchWeb (pt_apiKey t) env query of
                    (Inr result, cs) \<Rightarrow>
                      (Inr (content result),
                       t\<lparr>pt_cache := (pt_cache t)(cacheKey \<mapsto> \<lparr>pe_data = result, pe_timestamp = now_tool_store env\<rparr>)\<rparr>,
                       cs)
                  | (Inl e, cs) \<Rightarrow> (Inl (''Failed to perform Perplexity search: '' @ e), t, cs))
      in case pt_cache t cacheKey of
           Some cachedResult \<Rightarrow>
             if now_tool env - pe_timestamp cachedResult < pt_cacheTTL t
             then (Inr (content (pe_data cachedResult)), t, [])
             else live
         | None \<Rightarrow> live)"

text \<open>\<open>GoogleGroundingTool._call\<close> and \<open>_parseCitations\<close> (each parsed citation is its
  \<open>url\<close> and its \<open>title\<close>).\<close>

definition GoogleGroundingTool_call ::
  "GoogleGroundingTool \<Rightarrow> env \<Rightarrow> string \<Rightarrow> (string + string) \<times> GoogleGroundingTool \<times> call list" where
  "GoogleGroundingTool_call t env query =
     (if \<not> isSet (gt_apiKey t)
      then (Inl ''Google API key is not set. Cannot perform Google Grounding.'', t, [])
      else
       (let cacheKey = ''grounded_'' @ toLowerCase query;
            live = (case google_api env query of
                      Inr (text, citationMetadata) \<Rightarrow>
                        (Inr text,
                         t\<lparr>gt_cache := (gt_cache t)(cacheKey \<mapsto>
                              \<lparr>ge_data = text, ge_timestamp = now_tool_store env, ge_citations = citationMetadata\<rparr>)\<rparr>,
                         [ApiCall ''google_search_grounding'' query])
                    | Inl (GoogleGenerativeAIFetchError m) \<Rightarrow>
                        (Inl (''Google Grounding failed: '' @ m @ ''.''), t, [ApiCall ''google_search_grounding'' query])
                    | Inl (OtherError m) \<Rightarrow>
                        (Inl m, t, [ApiCall ''google_search_grounding'' query]))
        in case gt_cache t cacheKey of
             Some cachedResult \<Rightarrow>
               if now_tool env - ge_timestamp cachedResult < gt_cacheTTL t
               then (Inr (ge_data cachedResult), t, [])
               else live
           | None \<Rightarrow> live))"

definition parseCitations :: "citationMetadata option \<Rightarrow> (string option \<times> string) list" where
  "parseCitations citationMetadata =
     (case citationMetadata of
        None \<Rightarrow> []
      | Some md \<Rightarrow>
          (case citationSources md of
             None \<Rightarrow> []
           | Some srcs \<Rightarrow>
               map (\<lambda>source. (uri source, if isSet (title source) then orEmpty (title source) else ''Untitled Source''))
                 srcs))"


section \<open>Prompts\<close>

definition RAG_PROMPT_TEMPLATE :: "string \<Rightarrow> string \<Rightarrow> message list" where
  "RAG_PROMPT_TEMPLATE search_context user_input =
     [(System,
       ''You are a helpful AI assistant. Answer the user's questions truthfully and informatively based on the provided search context.''
       @ ''Cite your sources from the context clearly using numbers like [1], [2] next to the relevant information.''
       @ ''If the search context does not contain enough information to answer the question, state that you don't know.''
       @ ''Search Context:'' @ [CHR 0x0A, CHR 0x0A] @ search_context @ [CHR 0x0A, CHR 0x0A]),
      (Human, user_input)]"

definition ERROR_FALLBACK_PROMPT :: "string \<Rightarrow> message list" where
  "ERROR_FALLBACK_PROMPT original_query =
     [(System, ''You are an AI assistant. Explain politely that an error occurred.''),
      (Human,
       ''I'm very sorry, but I encountered an internal error while processing your request. Please try again or rephrase your question. (Original user query: ''
       @ original_query @ '')'')]"

definition directPrompt :: "string \<Rightarrow> message list" where
  "directPrompt userMessage =
     [(System, ''You are a helpful AI assistant. Respond directly to the user's question.''),
      (Human, userMessage)]"


section \<open>Streaming generation\<close>

text \<open>
  The result of running the generator \<open>_streamGenerate\<close> to its end: the text deltas it
  yields, the message of the exception that leaves it (if one does), and the generation
  calls it made.
\<close>

record generation =
  g_yielded :: "string list"
  g_thrown :: "string option"
  g_calls :: "call list"

definition streamGenerate :: "agent \<Rightarrow> env \<Rightarrow> client \<Rightarrow> message list \<Rightarrow> string \<Rightarrow> generation" where
  "streamGenerate a env llm promptMessages originalQuery =
     (case llm_stream env llm promptMessages of
        (chunks, None) \<Rightarrow>
          \<lparr>g_yielded = filter (\<lambda>c. c \<noteq> []) chunks, g_thrown = None,
           g_calls = [StreamCall llm promptMessages]\<rparr>
      | (chunks, Some error_message) \<Rightarrow>
          (let fallbackMessages = ERROR_FALLBACK_PROMPT originalQuery;
               fallbackModel = (case models a ''openai_fast'' of
                                  Some m \<Rightarrow> Some m
                                | None \<Rightarrow> models a ''google_fast'')
           in case fallbackModel of
                Some m \<Rightarrow>
                  (case llm_stream env m fallbackMessages of
                     (fallbackChunks, thrown) \<Rightarrow>
                       \<lparr>g_yielded = filter (\<lambda>c. c \<noteq> []) chunks @ fallbackChunks, g_thrown = thrown,
                        g_calls = [StreamCall llm promptMessages, StreamCall m fallbackMessages]\<rparr>)
              | None \<Rightarrow>
                  \<lparr>g_yielded = filter (\<lambda>c. c \<noteq> []) chunks @ [''Error generating response: '' @ error_message],
                   g_thrown = None,
                   g_calls = [StreamCall llm promptMessages]\<rparr>))"


section \<open>Search dispatch\<close>

text \<open>
  The search part of \<open>processMessage\<close> (the \<open>if (needsSearch)\<close> block): the values of the
  local variables when the block is left, and the tool calls and upstream requests made.
\<close>

record dispatch =
  d_needsSearch :: bool
  d_searchToolUsed :: string
  d_searchContent :: string
  d_searchSources :: "string list"
  d_isSearchSuccessful :: bool
  d_calls :: "call list"

definition cacheKeyOf :: "string \<Rightarrow> string \<Rightarrow> string" where
  "cacheKeyOf userMessage modelProvider = toLowerCase userMessage @ ''-'' @ modelProvider"

text \<open>The cache-miss branch: the live search and the write to the dispatcher's cache.\<close>

definition liveSearch :: "agent \<Rightarrow> env \<Rightarrow> string \<Rightarrow> string \<Rightarrow> dispatch \<times> agent" where
  "liveSearch a env userMessage modelProvider =
     (let cacheKey = cacheKeyOf userMessage modelProvider;
          (d, a1) =
            (case (if modelProvider = ''google'' then google_search_grounding a else None) of
               Some g \<Rightarrow>
                 (case GoogleGroundingTool_call g env userMessage of
                    (Inr groundedResult, g1, cs) \<Rightarrow>
                      (\<lparr>d_needsSearch = True,
                        d_searchToolUsed = ''google_search_grounding'',
                        d_searchContent = groundedResult,
                        d_searchSources =
                          filter (\<lambda>u. u \<noteq> [])
                            (map (\<lambda>c. orEmpty (fst c))
                               (parseCitations
                                  (case gt_cache g1 (''grounded_'' @ toLowerCase userMessage) of
                                     None \<Rightarrow> None
                                   | Some e \<Rightarrow> ge_citations e))),
                        d_isSearchSuccessful = True,
                        d_calls = ToolCall ''google_search_grounding'' userMessage # cs\<rparr>,
                       a\<lparr>google_search_grounding := Some g1\<rparr>)
                  | (Inl toolError, g1, cs) \<Rightarrow>
                      (\<lparr>d_needsSearch = True,
                        d_searchToolUsed = ''google_search_grounding_failed'',
                        d_searchContent =
                          ''Error: Google Grounding failed for \"'' @ userMessage @ ''\": '' @ toolError,
                        d_searchSources = [],
                        d_isSearchSuccessful = False,
                        d_calls = ToolCall ''google_search_grounding'' userMessage # cs\<rparr>,
                       a\<lparr>google_search_grounding := Some g1\<rparr>))
             | None \<Rightarrow>
                 (case perplexity_web_search a of
                    Some t \<Rightarrow>
                      (case PerplexitySearchTool_call t env userMessage of
                         (Inr perplexityResultContent, t1, cs) \<Rightarrow>
                           (\<lparr>d_needsSearch = True,
                             d_searchToolUsed = ''perplexity_web_search'',
                             d_searchContent = perplexityResultContent,
                             d_searchSources =
                               (case pt_cache t1 (toLowerCase userMessage) of
                                  None \<Rightarrow> []
                                | Some e \<Rightarrow> sources (pe_data e)),
                             d_isSearchSuccessful = True,
                             d_calls = ToolCall ''perplexity_web_search'' userMessage # cs\<rparr>,
                            a\<lparr>perplexity_web_search := Some t1\<rparr>)
                       | (Inl toolError, t1, cs) \<Rightarrow>
                           (\<lparr>d_needsSearch = True,
                             d_searchToolUsed = ''perplexity_web_search_failed'',
                             d_searchContent =
                               ''Error: Perplexity search failed for \"'' @ userMessage @ ''\": '' @ toolError,
                             d_searchSources = [],
                             d_isSearchSuccessful = False,
                             d_calls = ToolCall ''perplexity_web_search'' userMessage # cs\<rparr>,
                            a\<lparr>perplexity_web_search := Some t1\<rparr>))
                  | None \<Rightarrow>
                      (\<lparr>d_needsSearch = False,
                        d_searchToolUsed = ''none'',
                        d_searchContent = ''(No search tool available for your request.)'',
                        d_searchSources = [],
                        d_isSearchSuccessful = False,
                        d_calls = []\<rparr>,
                       a)))
      in if d_isSearchSuccessful d
         then (d, a1\<lparr>searchCache := (searchCache a1)(cacheKey \<mapsto>
                       \<lparr>ce_data = \<lparr>cd_content = d_searchContent d, cd_sources = d_searchSources d,
                                   cd_toolUsed = d_searchToolUsed d\<rparr>,
                        ce_timestamp = now_store env\<rparr>)\<rparr>)
         else (d, a1))"

definition dispatchSearch :: "agent \<Rightarrow> env \<Rightarrow> string \<Rightarrow> string \<Rightarrow> bool \<Rightarrow> dispatch \<times> agent" where
  "dispatchSearch a env userMessage modelProvider needsSearch =
     (if needsSearch
      then (case searchCache a (cacheKeyOf userMessage modelProvider) of
              Some cachedResult \<Rightarrow>
                if now_lookup env - ce_timestamp cachedResult < searchCacheTTL a
                then (\<lparr>d_needsSearch = True,
                       d_searchToolUsed = cd_toolUsed (ce_data cachedResult),
                       d_searchContent = cd_content (ce_data cachedResult),
                       d_searchSources = cd_sources (ce_data cachedResult),
                       d_isSearchSuccessful = True,
                       d_calls = []\<rparr>, a)
                else liveSearch a env userMessage modelProvider
            | None \<Rightarrow> liveSearch a env userMessage modelProvider)
      else (\<lparr>d_needsSearch = False, d_searchToolUsed = ''none'', d_searchContent = [],
             d_searchSources = [], d_isSearchSuccessful = False, d_calls = []\<rparr>, a))"


section \<open>The orchestrator and the endpoint\<close>

text \<open>
  A run of the generator \<open>processMessage\<close> to its end: the frames it yields, the message
  of an exception that leaves it, the calls made and the agent afterwards. \<open>_getLLM\<close> is
  called before the \<open>try\<close> block, so an error thrown by a constructor leaves the generator
  before any frame is yielded (\<open>shouldSearchWeb\<close>, called there too, cannot throw on a
  string); every throw inside the \<open>try\<close> block is caught there.
\<close>

record run =
  r_yielded :: "event list"
  r_thrown :: "string option"
  r_calls :: "call list"
  r_agent :: agent

text \<open>The frames of the generation stage: a \<open>Chunk\<close> for each delta, then an \<open>Error\<close> if
  an exception left the generator (the top-level \<open>catch\<close>).\<close>

definition generationFrames :: "generation \<Rightarrow> event list" where
  "generationFrames g =
     map Chunk (g_yielded g)
     @ (case g_thrown g of
          None \<Rightarrow> []
        | Some m \<Rightarrow> [Error (if m \<noteq> [] then m else ''An unexpected error occurred during processing.'')])"

definition processMessage :: "agent \<Rightarrow> env \<Rightarrow> string \<Rightarrow> string \<Rightarrow> string \<Rightarrow> bool \<Rightarrow> run" where
  "processMessage a env userMessage modelProvider modelName forceSearch =
     (case getLLM a env modelProvider modelName of
        Inl thrown \<Rightarrow>
          \<lparr>r_yielded = [], r_thrown = Some thrown,
           r_calls = [GetLLM modelProvider modelName], r_agent = a\<rparr>
      | Inr None \<Rightarrow>
          \<lparr>r_yielded =
             [Error (''Error: Model provider \"'' @ modelProvider @ ''\" not initialized or model \"''
                     @ modelName @ ''\" not found. Check API keys.''),
              End],
           r_thrown = None,
           r_calls = [GetLLM modelProvider modelName],
           r_agent = a\<rparr>
      | Inr (Some llm) \<Rightarrow>
          (let needsSearch = forceSearch \<or> shouldSearchWeb userMessage;
               (d, a1) = dispatchSearch a env userMessage modelProvider needsSearch;
               metadata = Metadata (d_needsSearch d) (d_searchToolUsed d) (d_searchSources d)
                            (d_isSearchSuccessful d);
               messagesForLLM =
                 (if d_needsSearch d \<and> d_isSearchSuccessful d
                  then RAG_PROMPT_TEMPLATE (d_searchContent d) userMessage
                  else directPrompt userMessage);
               g = streamGenerate a1 env llm messagesForLLM userMessage
           in \<lparr>r_yielded = metadata # generationFrames g @ [End],
               r_thrown = None,
               r_calls = GetLLM modelProvider modelName # d_calls d @ g_calls g,
               r_agent = a1\<rparr>))"

text \<open>
  The \<open>/chat\<close> handler. The response keeps the frames written and \<open>writableEnded\<close>, which
  only \<open>res.end()\<close> sets. Request fields are taken at their declared types; a field that is
  absent is \<open>None\<close>.
\<close>

record request =
  message :: "string option"
  modelProvider :: "string option"
  modelName :: "string option"
  forceSearch :: "bool option"

record response =
  frames :: "event list"
  writableEnded :: bool

definition res_write :: "response \<Rightarrow> event \<Rightarrow> response" where
  "res_write res e = res\<lparr>frames := frames res @ [e]\<rparr>"

definition res_end :: "response \<Rightarrow> response" where
  "res_end res = res\<lparr>writableEnded := True\<rparr>"

text \<open>The \<open>for await\<close> loop over the frames the generator yields.\<close>

fun writeAll :: "response \<Rightarrow> event list \<Rightarrow> response" where
  "writeAll res [] = res"
| "writeAll res (chunk # rest) =
     (if writableEnded res then res else writeAll (res_write res chunk) rest)"

definition chat :: "agent \<Rightarrow> env \<Rightarrow> request \<Rightarrow> response \<times> call list \<times> agent" where
  "chat a env req =
     (let res0 = \<lparr>frames = [], writableEnded = False\<rparr> in
      if \<not> isSet (message req)
      then (res_end (res_write (res_write res0 (Error ''Message is required.'')) End), [], a)
      else
       (let r = processMessage a env (orEmpty (message req))
                  (case modelProvider req of None \<Rightarrow> ''openai'' | Some p \<Rightarrow> p)
                  (case modelName req of None \<Rightarrow> ''gpt-4-turbo'' | Some n \<Rightarrow> n)
                  (case forceSearch req of None \<Rightarrow> False | Some f \<Rightarrow> f);
            res1 = writeAll res0 (r_yielded r);
            res2 = (case r_thrown r of
                      None \<Rightarrow> res1
                    | Some m \<Rightarrow>
                        if \<not> writableEnded res1
                        then res_write
                               (res_write res1
                                  (Error (if m \<noteq> [] then m else ''An unknown streaming error occurred.'')))
                               End
                        else res1);
            res3 = (if \<not> writableEnded res2 then res_end res2 else res2)
        in (res3, r_calls r, r_agent r)))"


section \<open>Frame kinds and example configurations\<close>

fun isMetadata :: "event \<Rightarrow> bool" where
  "isMetadata (Metadata u t s ok) = True"
| "isMetadata e = False"

text \<open>An agent with every credential, and one with the OpenAI and Anthropic credentials only.\<close>

definition allKeys :: api_keys where
  "allKeys = \<lparr>key_openai = Some ''sk-openai'', key_google = Some ''g-key'',
              key_anthropic = Some ''sk-ant'', key_perplexity = Some ''pplx-key''\<rparr>"

definition openaiAnthropicKeys :: api_keys where
  "openaiAnthropicKeys = \<lparr>key_openai = Some ''sk-openai'', key_google = None,
              key_anthropic = Some ''sk-ant'', key_perplexity = None\<rparr>"

text \<open>An example of the constructors: the Google class refuses an empty model identifier
  and drops a leading \<open>models/\<close>; the other two keep every identifier.\<close>

definition exampleConstructors :: "vendor \<Rightarrow> string \<Rightarrow> string + string" where
  "exampleConstructors v ident =
     (if v = ChatGoogleGenerativeAI
      then (if ident = []
            then Inl ''[GoogleGenerativeAI Error]: Must provide a model name.''
            else if startsWith ident ''models/'' then Inr (drop 7 ident)
            else Inr ident)
      else Inr ident)"

text \<open>A world where every upstream call succeeds, read at the given time.\<close>

definition calmEnv :: "int \<Rightarrow> env" where
  "calmEnv now =
     \<lparr>now_lookup = now, now_tool = now, now_tool_store = now, now_store = now,
      perplexity_api = (\<lambda>q. Inr \<lparr>choice_content = Some ''Paris.'',
                                  data_citations = Some [Citation (Some ''https://example.org/paris'')]\<rparr>),
      google_api = (\<lambda>q. Inr (''Paris.'',
                      Some \<lparr>citationSources = Some [\<lparr>uri = Some ''https://example.org/fr'', title = None\<rparr>]\<rparr>)),
      llm_stream = (\<lambda>c ms. ([''Hel'', [], ''lo''], None)),
      new_client = exampleConstructors\<rparr>"

text \<open>A world where every search backend fails and only the claude-3-sonnet stream breaks
  (after one delta).\<close>

definition stormEnv :: "int \<Rightarrow> env" where
  "stormEnv now =
     \<lparr>now_lookup = now, now_tool = now, now_tool_store = now, now_store = now,
      perplexity_api = (\<lambda>q. Inl ''503''),
      google_api = (\<lambda>q. Inl (GoogleGenerativeAIFetchError ''quota exceeded'')),
      llm_stream = (\<lambda>c ms. if c = Client ChatAnthropic ''claude-3-sonnet-20240229'' 2
                            then ([''Par''], Some ''overloaded'')
                            else ([''Sorry.''], None)),
      new_client = exampleConstructors\<rparr>"

text \<open>A world where every generation stream breaks after one delta.\<close>

definition brokenEnv :: "int \<Rightarrow> env" where
  "brokenEnv now = (calmEnv now)\<lparr>llm_stream := (\<lambda>c ms. ([''x''], Some ''connection reset''))\<rparr>"

text \<open>An agent and two tools whose caches hold an entry written at time 0 for the query
  \<open>latest news\<close>.\<close>

definition staleAgent :: agent where
  "staleAgent =
     (newLangChainChatAgent allKeys)
       \<lparr>searchCache := [cacheKeyOf ''latest news'' ''openai'' \<mapsto>
           \<lparr>ce_data = \<lparr>cd_content = ''Old news.'', cd_sources = [],
                       cd_toolUsed = ''perplexity_web_search''\<rparr>,
            ce_timestamp = 0\<rparr>]\<rparr>"

definition stalePerplexityTool :: PerplexitySearchTool where
  "stalePerplexityTool =
     (newPerplexitySearchTool (Some ''pplx-key''))
       \<lparr>pt_cache := [toLowerCase ''latest news'' \<mapsto>
           \<lparr>pe_data = \<lparr>content = ''Old news.'', sources = [], citations = []\<rparr>,
            pe_timestamp = 0\<rparr>]\<rparr>"

definition staleGoogleTool :: GoogleGroundingTool where
  "staleGoogleTool =
     (newGoogleGroundingTool (Some ''g-key''))
       \<lparr>gt_cache := [''grounded_'' @ toLowerCase ''latest news'' \<mapsto>
           \<lparr>ge_data = ''Old news.'', ge_timestamp = 0, ge_citations = None\<rparr>]\<rparr>"


section \<open>The event protocol of the endpoint\<close>

lemma writeAll_open:
  "\<not> writableEnded res \<Longrightarrow> writeAll res es = res\<lparr>frames := frames res @ es\<rparr>"
  by (induction es arbitrary: res) (simp_all add: res_write_def)

lemma generationFrames_no_End: "End \<notin> set (generationFrames g)"
  by (auto simp add: generationFrames_def split: option.splits)

lemma generationFrames_no_Metadata: "e \<in> set (generationFrames g) \<Longrightarrow> \<not> isMetadata e"
  by (auto simp add: generationFrames_def split: option.splits)

text \<open>A run of \<open>processMessage\<close> either ends normally, with \<open>End\<close> as its last frame and
  nowhere else, or is left by an exception before any frame.\<close>

lemma processMessage_end:
  "(r_thrown (processMessage a env m p n f) = None
      \<and> (\<exists>es. r_yielded (processMessage a env m p n f) = es @ [End] \<and> End \<notin> set es))
   \<or> (r_thrown (processMessage a env m p n f) \<noteq> None
      \<and> r_yielded (processMessage a env m p n f) = [])"
  by (auto simp add: processMessage_def Let_def generationFrames_no_End
        split: option.splits prod.splits sum.splits)

lemma processMessage_metadata:
  assumes "getLLM a env p n = Inr (Some llm)"
  shows "r_thrown (processMessage a env m p n f) = None
       \<and> (\<exists>u t s ok rest. r_yielded (processMessage a env m p n f) = Metadata u t s ok # rest
           \<and> \<not> list_ex isMetadata rest)"
  using assms
  by (auto simp add: processMessage_def Let_def list_ex_iff generationFrames_no_Metadata
        split: option.splits prod.splits)

text \<open>The frames the handler writes: what the generator yielded, then the two frames of
  the handler's own \<open>catch\<close> if an exception left the generator.\<close>

lemma chat_frames:
  "frames (fst (chat a env req)) =
     (if \<not> isSet (message req) then [Error ''Message is required.'', End]
      else (let r = processMessage a env (orEmpty (message req))
                  (case modelProvider req of None \<Rightarrow> ''openai'' | Some p \<Rightarrow> p)
                  (case modelName req of None \<Rightarrow> ''gpt-4-turbo'' | Some n \<Rightarrow> n)
                  (case forceSearch req of None \<Rightarrow> False | Some f \<Rightarrow> f)
            in r_yielded r
               @ (case r_thrown r of
                    None \<Rightarrow> []
                  | Some m \<Rightarrow>
                      [Error (if m \<noteq> [] then m else ''An unknown streaming error occurred.''), End])))"
  by (simp add: chat_def Let_def writeAll_open res_write_def res_end_def split: option.splits)

text \<open>
  C1. Whatever the agent, the world and the request, the frames written by the \<open>/chat\<close>
  handler contain \<open>End\<close> exactly once, as the last frame. This covers the streaming path, the
  unresolved model, the missing message, the failure caught at the top level of
  \<open>processMessage\<close>, and the exception that leaves \<open>processMessage\<close> and is caught by the
  handler.
\<close>

theorem chat_end_once_and_last:
  "last (frames (fst (chat a env req))) = End
   \<and> count_list (frames (fst (chat a env req))) End = 1"
proof (cases "isSet (message req)")
  case False
  then show ?thesis by (simp add: chat_frames)
next
  case True
  let ?r = "processMessage a env (orEmpty (message req))
        (case modelProvider req of None \<Rightarrow> ''openai'' | Some p \<Rightarrow> p)
        (case modelName req of None \<Rightarrow> ''gpt-4-turbo'' | Some n \<Rightarrow> n)
        (case forceSearch req of None \<Rightarrow> False | Some f \<Rightarrow> f)"
  from processMessage_end
  consider (normal) es where "r_thrown ?r = None" "r_yielded ?r = es @ [End]" "End \<notin> set es"
    | (thrown) m where "r_thrown ?r = Some m" "r_yielded ?r = []"
    by blast
  then show ?thesis
  proof cases
    case normal
    with True show ?thesis by (simp add: chat_frames Let_def count_list_0_iff)
  next
    case thrown
    with True show ?thesis by (simp add: chat_frames Let_def)
  qed
qed

text \<open>The paths on concrete requests: streaming, unresolved model, missing message, a
  failure of the fallback stream caught at the top level of \<open>processMessage\<close>, and a model
  identifier the constructor refuses, caught by the handler.\<close>

lemma chat_paths_examples:
  "frames (fst (chat (newLangChainChatAgent allKeys) (calmEnv 0)
      \<lparr>message = Some ''hi'', modelProvider = None, modelName = None, forceSearch = None\<rparr>))
     = [Metadata False ''none'' [] False, Chunk ''Hel'', Chunk ''lo'', End]
   \<and> frames (fst (chat (newLangChainChatAgent openaiAnthropicKeys) (calmEnv 0)
      \<lparr>message = Some ''hi'', modelProvider = Some ''google'', modelName = Some ''gemini-2.5-pro'',
        forceSearch = None\<rparr>))
     = [Error ''Error: Model provider \"google\" not initialized or model \"gemini-2.5-pro\" not found. Check API keys.'',
        End]
   \<and> frames (fst (chat (newLangChainChatAgent allKeys) (calmEnv 0)
      \<lparr>message = None, modelProvider = None, modelName = None, forceSearch = None\<rparr>))
     = [Error ''Message is required.'', End]
   \<and> frames (fst (chat (newLangChainChatAgent allKeys) (brokenEnv 0)
      \<lparr>message = Some ''hi'', modelProvider = None, modelName = None, forceSearch = None\<rparr>))
     = [Metadata False ''none'' [] False, Chunk ''x'', Chunk ''x'', Error ''connection reset'', End]
   \<and> frames (fst (chat (newLangChainChatAgent allKeys) (calmEnv 0)
      \<lparr>message = Some ''hi'', modelProvider = Some ''google'', modelName = Some [], forceSearch = None\<rparr>))
     = [Error ''[GoogleGenerativeAI Error]: Must provide a model name.'', End]
   \<and> fst (snd (chat (newLangChainChatAgent allKeys) (calmEnv 0)
      \<lparr>message = Some ''hi'', modelProvider = Some ''google'', modelName = Some [], forceSearch = None\<rparr>))
     = [GetLLM ''google'' []]"
  by code_simp

text \<open>
  C2. When the message is present and the model resolves (\<open>_getLLM\<close> returns a client), the
  first frame is a \<open>Metadata\<close> frame and no later frame is one: exactly one metadata event,
  before every chunk. A request whose model identifier makes the constructor throw does
  not resolve a model, and gets no metadata frame (\<open>chat_paths_examples\<close>).
\<close>

theorem chat_one_metadata_first:
  assumes "isSet (message req)"
      and "getLLM a env (case modelProvider req of None \<Rightarrow> ''openai'' | Some p \<Rightarrow> p)
                    (case modelName req of None \<Rightarrow> ''gpt-4-turbo'' | Some n \<Rightarrow> n) = Inr (Some llm)"
  shows "\<exists>u t s ok rest. frames (fst (chat a env req)) = Metadata u t s ok # rest
           \<and> \<not> list_ex isMetadata rest"
  using assms processMessage_metadata [OF assms(2)] by (simp add: chat_frames Let_def)

theorem chat_one_metadata_first_witness:
  "isSet (message \<lparr>message = Some ''hi'', modelProvider = Some ''google'',
                   modelName = Some ''models/gemini-1.5-flash'', forceSearch = None\<rparr>)
   \<and> getLLM (newLangChainChatAgent allKeys) (calmEnv 0) ''google'' ''models/gemini-1.5-flash''
       = Inr (Some (Client ChatGoogleGenerativeAI ''gemini-1.5-flash'' 2))
   \<and> (\<exists>u t s ok rest. frames (fst (chat (newLangChainChatAgent allKeys) (calmEnv 0)
          \<lparr>message = Some ''hi'', modelProvider = Some ''google'',
            modelName = Some ''models/gemini-1.5-flash'', forceSearch = None\<rparr>))
            = Metadata u t s ok # rest \<and> \<not> list_ex isMetadata rest)"
proof -
  have h1: "isSet (message \<lparr>message = Some ''hi'', modelProvider = Some ''google'',
                   modelName = Some ''models/gemini-1.5-flash'', forceSearch = None\<rparr>)"
    by (simp add: isSet_def)
  have h2: "getLLM (newLangChainChatAgent allKeys) (calmEnv 0) ''google'' ''models/gemini-1.5-flash''
       = Inr (Some (Client ChatGoogleGenerativeAI ''gemini-1.5-flash'' 2))"
    by code_simp
  show ?thesis
    using h1 h2
      chat_one_metadata_first [of "\<lparr>message = Some ''hi'', modelProvider = Some ''google'',
                                     modelName = Some ''models/gemini-1.5-flash'', forceSearch = None\<rparr>"
                                  "newLangChainChatAgent allKeys" "calmEnv 0"
                                  "Client ChatGoogleGenerativeAI ''gemini-1.5-flash'' 2"]
    by simp
qed

text \<open>
  C3. When the message is missing or empty, the handler writes exactly the two frames
  \<open>Error\<close>, \<open>End\<close>, makes no call at all (no model resolution, no search tool, no upstream
  request, no generation) and leaves the agent as it was.
\<close>

theorem chat_missing_message:
  assumes "\<not> isSet (message req)"
  shows "chat a env req =
           (\<lparr>frames = [Error ''Message is required.'', End], writableEnded = True\<rparr>, [], a)"
  using assms by (simp add: chat_def res_write_def res_end_def)

theorem chat_missing_message_witness:
  "(\<not> isSet (message \<lparr>message = None, modelProvider = None, modelName = None, forceSearch = None\<rparr>)
    \<and> chat (newLangChainChatAgent allKeys) (calmEnv 0)
        \<lparr>message = None, modelProvider = None, modelName = None, forceSearch = None\<rparr>
      = (\<lparr>frames = [Error ''Message is required.'', End], writableEnded = True\<rparr>, [],
         newLangChainChatAgent allKeys))
   \<and> (\<not> isSet (message \<lparr>message = Some [], modelProvider = Some ''google'', modelName = None,
                          forceSearch = Some True\<rparr>)
    \<and> chat (newLangChainChatAgent allKeys) (calmEnv 0)
        \<lparr>message = Some [], modelProvider = Some ''google'', modelName = None, forceSearch = Some True\<rparr>
      = (\<lparr>frames = [Error ''Message is required.'', End], writableEnded = True\<rparr>, [],
         newLangChainChatAgent allKeys))"
proof -
  have h1: "\<not> isSet (message \<lparr>message = None, modelProvider = None, modelName = None,
                                forceSearch = None\<rparr>)"
    by (simp add: isSet_def)
  have h2: "\<not> isSet (message \<lparr>message = Some [], modelProvider = Some ''google'', modelName = None,
                                forceSearch = Some True\<rparr>)"
    by (simp add: isSet_def)
  show ?thesis
    using h1 h2
      chat_missing_message [OF h1, of "newLangChainChatAgent allKeys" "calmEnv 0"]
      chat_missing_message [OF h2, of "newLangChainChatAgent allKeys" "calmEnv 0"]
    by simp
qed


section \<open>The search decision\<close>

text \<open>
  C9. \<open>shouldSearchWeb\<close> is a function of the message text alone, and takes the three
  values the specification lists.
\<close>

theorem shouldSearchWeb_examples:
  "shouldSearchWeb ''search for the capital of France'' = True
   \<and> shouldSearchWeb ''explain quantum entanglement'' = False
   \<and> shouldSearchWeb ''latest news today'' = True"
  by code_simp


section \<open>The fallback of the streaming generator\<close>

lemma streamGenerate_models:
  "models a' = models a \<Longrightarrow> streamGenerate a' env llm ms q = streamGenerate a env llm ms q"
  by (simp add: streamGenerate_def Let_def split: prod.splits option.splits)

lemma streamGenerate_fallback:
  assumes "llm_stream env llm promptMessages = (chunks, Some err)"
      and "(case models a ''openai_fast'' of Some m \<Rightarrow> Some m | None \<Rightarrow> models a ''google_fast'') = Some m"
  shows "streamGenerate a env llm promptMessages originalQuery =
           \<lparr>g_yielded = filter (\<lambda>c. c \<noteq> []) chunks @ fst (llm_stream env m (ERROR_FALLBACK_PROMPT originalQuery)),
            g_thrown = snd (llm_stream env m (ERROR_FALLBACK_PROMPT originalQuery)),
            g_calls = [StreamCall llm promptMessages, StreamCall m (ERROR_FALLBACK_PROMPT originalQuery)]\<rparr>"
  using assms by (simp add: streamGenerate_def Let_def split: prod.splits)

lemma streamGenerate_no_fallback:
  assumes "llm_stream env llm promptMessages = (chunks, Some err)"
      and "models a ''openai_fast'' = None" and "models a ''google_fast'' = None"
  shows "streamGenerate a env llm promptMessages originalQuery =
           \<lparr>g_yielded = filter (\<lambda>c. c \<noteq> []) chunks @ [''Error generating response: '' @ err],
            g_thrown = None,
            g_calls = [StreamCall llm promptMessages]\<rparr>"
  using assms by (simp add: streamGenerate_def Let_def)

lemma ERROR_FALLBACK_PROMPT_query:
  "\<exists>pre. ERROR_FALLBACK_PROMPT originalQuery =
             [(System, ''You are an AI assistant. Explain politely that an error occurred.''),
              (Human, pre @ originalQuery @ '')'')]"
  unfolding ERROR_FALLBACK_PROMPT_def by blast

text \<open>
  C4, as the specification states it, fails. With the OpenAI and Anthropic credentials
  configured, a request to the claude-3-sonnet client whose stream breaks does not fall back
  to \<open>anthropic_fast\<close> (claude-3-haiku), although it is configured: the apology is streamed
  through \<open>openai_fast\<close> (gpt-3.5-turbo).
\<close>

theorem anthropic_failure_falls_back_to_openai:
  "getLLM (newLangChainChatAgent openaiAnthropicKeys) (stormEnv 0) ''anthropic'' ''claude-3-sonnet-20240229''
     = Inr (Some (Client ChatAnthropic ''claude-3-sonnet-20240229'' 2))
   \<and> models (newLangChainChatAgent openaiAnthropicKeys) ''anthropic_fast''
     = Some (Client ChatAnthropic ''claude-3-haiku-20240307'' 7)
   \<and> llm_stream (stormEnv 0) (Client ChatAnthropic ''claude-3-sonnet-20240229'' 2) (directPrompt ''hi'')
     = ([''Par''], Some ''overloaded'')
   \<and> g_calls (streamGenerate (newLangChainChatAgent openaiAnthropicKeys) (stormEnv 0)
               (Client ChatAnthropic ''claude-3-sonnet-20240229'' 2) (directPrompt ''hi'') ''hi'')
     = [StreamCall (Client ChatAnthropic ''claude-3-sonnet-20240229'' 2) (directPrompt ''hi''),
        StreamCall (Client ChatOpenAI ''gpt-3.5-turbo'' 7) (ERROR_FALLBACK_PROMPT ''hi'')]
   \<and> StreamCall (Client ChatAnthropic ''claude-3-haiku-20240307'' 7) (ERROR_FALLBACK_PROMPT ''hi'')
       \<notin> set (g_calls (streamGenerate (newLangChainChatAgent openaiAnthropicKeys) (stormEnv 0)
               (Client ChatAnthropic ''claude-3-sonnet-20240229'' 2) (directPrompt ''hi'') ''hi''))"
  by (simp add: getLLM_def newLangChainChatAgent_def openaiAnthropicKeys_def initializeModels_def
        isSet_def stormEnv_def streamGenerate_def)

text \<open>
  C4, amended. When the stream of the resolved client throws, the deltas already yielded
  are kept and the generator falls back in a fixed order that does not look at the
  provider of the request: \<open>openai_fast\<close> if it is configured, otherwise \<open>google_fast\<close> if
  it is configured; the apology prompt, which embeds the original query, is streamed
  through that client (every chunk, also an empty one, and an exception of the fallback
  stream leaves the generator). When neither is configured, one delta with the text
  \<open>Error generating response: \<close> and the error message is yielded instead.
\<close>

theorem streamGenerate_fallback_order:
  assumes "llm_stream env llm promptMessages = (chunks, Some err)"
  shows "(models a ''openai_fast'' = Some m \<or> models a ''openai_fast'' = None \<and> models a ''google_fast'' = Some m
           \<longrightarrow> streamGenerate a env llm promptMessages originalQuery =
                 \<lparr>g_yielded = filter (\<lambda>c. c \<noteq> []) chunks @ fst (llm_stream env m (ERROR_FALLBACK_PROMPT originalQuery)),
                  g_thrown = snd (llm_stream env m (ERROR_FALLBACK_PROMPT originalQuery)),
                  g_calls = [StreamCall llm promptMessages, StreamCall m (ERROR_FALLBACK_PROMPT originalQuery)]\<rparr>)
       \<and> (models a ''openai_fast'' = None \<and> models a ''google_fast'' = None
           \<longrightarrow> streamGenerate a env llm promptMessages originalQuery =
                 \<lparr>g_yielded = filter (\<lambda>c. c \<noteq> []) chunks @ [''Error generating response: '' @ err],
                  g_thrown = None,
                  g_calls = [StreamCall llm promptMessages]\<rparr>)
       \<and> (\<exists>pre. ERROR_FALLBACK_PROMPT originalQuery =
             [(System, ''You are an AI assistant. Explain politely that an error occurred.''),
              (Human, pre @ originalQuery @ '')'')])"
proof (intro conjI impI)
  assume "models a ''openai_fast'' = Some m \<or> models a ''openai_fast'' = None \<and> models a ''google_fast'' = Some m"
  then have "(case models a ''openai_fast'' of Some m \<Rightarrow> Some m | None \<Rightarrow> models a ''google_fast'') = Some m"
    by auto
  then show "streamGenerate a env llm promptMessages originalQuery =
                 \<lparr>g_yielded = filter (\<lambda>c. c \<noteq> []) chunks @ fst (llm_stream env m (ERROR_FALLBACK_PROMPT originalQuery)),
                  g_thrown = snd (llm_stream env m (ERROR_FALLBACK_PROMPT originalQuery)),
                  g_calls = [StreamCall llm promptMessages, StreamCall m (ERROR_FALLBACK_PROMPT originalQuery)]\<rparr>"
    using assms by (rule streamGenerate_fallback[rotated])
next
  assume "models a ''openai_fast'' = None \<and> models a ''google_fast'' = None"
  then show "streamGenerate a env llm promptMessages originalQuery =
                 \<lparr>g_yielded = filter (\<lambda>c. c \<noteq> []) chunks @ [''Error generating response: '' @ err],
                  g_thrown = None,
                  g_calls = [StreamCall llm promptMessages]\<rparr>"
    using assms streamGenerate_no_fallback by blast
next
  show "\<exists>pre. ERROR_FALLBACK_PROMPT originalQuery =
             [(System, ''You are an AI assistant. Explain politely that an error occurred.''),
              (Human, pre @ originalQuery @ '')'')]"
    by (rule ERROR_FALLBACK_PROMPT_query)
qed


theorem streamGenerate_fallback_order_witness:
  "llm_stream (stormEnv 0) (Client ChatAnthropic ''claude-3-sonnet-20240229'' 2) (directPrompt ''hi'')
     = ([''Par''], Some ''overloaded'')
   \<and> models (newLangChainChatAgent allKeys) ''openai_fast'' = Some (Client ChatOpenAI ''gpt-3.5-turbo'' 7)
   \<and> streamGenerate (newLangChainChatAgent allKeys) (stormEnv 0)
        (Client ChatAnthropic ''claude-3-sonnet-20240229'' 2) (directPrompt ''hi'') ''hi''
      = \<lparr>g_yielded = [''Par'', ''Sorry.''], g_thrown = None,
         g_calls = [StreamCall (Client ChatAnthropic ''claude-3-sonnet-20240229'' 2) (directPrompt ''hi''),
                    StreamCall (Client ChatOpenAI ''gpt-3.5-turbo'' 7) (ERROR_FALLBACK_PROMPT ''hi'')]\<rparr>"
proof -
  have h: "llm_stream (stormEnv 0) (Client ChatAnthropic ''claude-3-sonnet-20240229'' 2) (directPrompt ''hi'')
             = ([''Par''], Some ''overloaded'')"
    by (simp add: stormEnv_def)
  have m: "models (newLangChainChatAgent allKeys) ''openai_fast'' = Some (Client ChatOpenAI ''gpt-3.5-turbo'' 7)"
    by (simp add: newLangChainChatAgent_def allKeys_def initializeModels_def isSet_def)
  have f: "llm_stream (stormEnv 0) (Client ChatOpenAI ''gpt-3.5-turbo'' 7) (ERROR_FALLBACK_PROMPT ''hi'')
             = ([''Sorry.''], None)"
    by (simp add: stormEnv_def)
  from streamGenerate_fallback_order [OF h, of "newLangChainChatAgent allKeys"
         "Client ChatOpenAI ''gpt-3.5-turbo'' 7" "''hi''"] m f h
  show ?thesis by simp
qed


section \<open>Search dispatch and the caches\<close>

lemma liveSearch_cache:
  assumes "liveSearch a env q p = (d, a')"
  shows "searchCache a' =
           (if d_isSearchSuccessful d
            then (searchCache a)(cacheKeyOf q p \<mapsto>
                   \<lparr>ce_data = \<lparr>cd_content = d_searchContent d, cd_sources = d_searchSources d,
                               cd_toolUsed = d_searchToolUsed d\<rparr>,
                    ce_timestamp = now_store env\<rparr>)
            else searchCache a)"
    and "searchCacheTTL a' = searchCacheTTL a"
    and "models a' = models a"
  using assms
  by (auto simp add: liveSearch_def Let_def split: option.splits prod.splits sum.splits if_splits)

lemma dispatchSearch_miss:
  assumes "case searchCache a (cacheKeyOf q p) of None \<Rightarrow> True
           | Some e \<Rightarrow> searchCacheTTL a \<le> now_lookup env - ce_timestamp e"
  shows "dispatchSearch a env q p True = liveSearch a env q p"
  using assms by (auto simp add: dispatchSearch_def split: option.splits)

lemma dispatchSearch_cases:
  assumes "dispatchSearch a env q p True = (d, a')"
  obtains (hit) e where "searchCache a (cacheKeyOf q p) = Some e"
                    "now_lookup env - ce_timestamp e < searchCacheTTL a" "d_calls d = []" "a' = a"
                    "d_isSearchSuccessful d"
        | (miss) "case searchCache a (cacheKeyOf q p) of None \<Rightarrow> True
                    | Some e \<Rightarrow> searchCacheTTL a \<le> now_lookup env - ce_timestamp e"
                 "liveSearch a env q p = (d, a')"
  using assms by (auto simp add: dispatchSearch_def split: option.splits if_splits)

lemma liveSearch_ignores_cache:
  "fst (liveSearch (a\<lparr>searchCache := c\<rparr>) env q p) = fst (liveSearch a env q p)"
  by (simp add: liveSearch_def Let_def split: option.splits prod.splits sum.splits if_splits)

lemma PerplexitySearchTool_call_stale:
  assumes "pt_cache t (toLowerCase q) = Some pe"
      and "pt_cacheTTL t \<le> now_tool env - pe_timestamp pe"
  shows "(case PerplexitySearchTool_call t env q of (r, t', cs) \<Rightarrow> (r, cs))
       = (case PerplexitySearchTool_call (t\<lparr>pt_cache := (pt_cache t)(toLowerCase q := None)\<rparr>) env q
            of (r, t', cs) \<Rightarrow> (r, cs))"
  using assms
  by (simp add: PerplexitySearchTool_call_def Let_def split: option.splits prod.splits sum.splits)

lemma GoogleGroundingTool_call_stale:
  assumes "gt_cache t (''grounded_'' @ toLowerCase q) = Some ge"
      and "gt_cacheTTL t \<le> now_tool env - ge_timestamp ge"
  shows "(case GoogleGroundingTool_call t env q of (r, t', cs) \<Rightarrow> (r, cs))
       = (case GoogleGroundingTool_call (t\<lparr>gt_cache := (gt_cache t)(''grounded_'' @ toLowerCase q := None)\<rparr>) env q
            of (r, t', cs) \<Rightarrow> (r, cs))"
  using assms
  by (simp add: GoogleGroundingTool_call_def Let_def
        split: option.splits prod.splits sum.splits google_error.splits)

lemma dispatchSearch_hit:
  assumes "searchCache a (cacheKeyOf q p) = Some e"
      and "now_lookup env - ce_timestamp e < searchCacheTTL a"
  shows "dispatchSearch a env q p True =
           (\<lparr>d_needsSearch = True, d_searchToolUsed = cd_toolUsed (ce_data e),
             d_searchContent = cd_content (ce_data e), d_searchSources = cd_sources (ce_data e),
             d_isSearchSuccessful = True, d_calls = []\<rparr>, a)"
  using assms by (simp add: dispatchSearch_def)

lemma dispatchSearch_models:
  "dispatchSearch a env q p ns = (d, a') \<Longrightarrow> models a' = models a"
  by (auto simp add: dispatchSearch_def liveSearch_cache(3) split: option.splits if_splits)

lemma processMessage_run:
  assumes "getLLM a env p n = Inr (Some llm)"
      and "dispatchSearch a env q p (f \<or> shouldSearchWeb q) = (d, a1)"
  shows "processMessage a env q p n f =
           \<lparr>r_yielded =
              Metadata (d_needsSearch d) (d_searchToolUsed d) (d_searchSources d) (d_isSearchSuccessful d)
              # generationFrames (streamGenerate a env llm
                   (if d_needsSearch d \<and> d_isSearchSuccessful d
                    then RAG_PROMPT_TEMPLATE (d_searchContent d) q else directPrompt q) q)
              @ [End],
            r_thrown = None,
            r_calls = GetLLM p n # d_calls d
                      @ g_calls (streamGenerate a env llm
                          (if d_needsSearch d \<and> d_isSearchSuccessful d
                           then RAG_PROMPT_TEMPLATE (d_searchContent d) q else directPrompt q) q),
            r_agent = a1\<rparr>"
proof -
  from assms(2) have "models a1 = models a" by (rule dispatchSearch_models)
  then have "streamGenerate a1 env llm ms q = streamGenerate a env llm ms q" for ms
    by (rule streamGenerate_models)
  with assms show ?thesis by (simp add: processMessage_def Let_def)
qed

lemma streamGenerate_calls_head:
  "\<exists>rest. g_calls (streamGenerate a env llm ms q) = StreamCall llm ms # rest"
  by (auto simp add: streamGenerate_def Let_def split: prod.splits option.splits)

lemma streamGenerate_ok:
  assumes "llm_stream env llm ms = (chunks, None)"
  shows "streamGenerate a env llm ms q =
           \<lparr>g_yielded = filter (\<lambda>c. c \<noteq> []) chunks, g_thrown = None, g_calls = [StreamCall llm ms]\<rparr>"
  using assms by (simp add: streamGenerate_def)

lemma liveSearch_google_failed:
  assumes "google_search_grounding a = Some g"
      and "fst (GoogleGroundingTool_call g env q) = Inl msg"
  shows "fst (liveSearch a env q ''google'') =
           \<lparr>d_needsSearch = True, d_searchToolUsed = ''google_search_grounding_failed'',
            d_searchContent = ''Error: Google Grounding failed for \"'' @ q @ ''\": '' @ msg,
            d_searchSources = [], d_isSearchSuccessful = False,
            d_calls = ToolCall ''google_search_grounding'' q # snd (snd (GoogleGroundingTool_call g env q))\<rparr>"
  using assms
  by (cases "GoogleGroundingTool_call g env q") (simp add: liveSearch_def Let_def)

lemma liveSearch_perplexity_failed:
  assumes "p \<noteq> ''google'' \<or> google_search_grounding a = None"
      and "perplexity_web_search a = Some t"
      and "fst (PerplexitySearchTool_call t env q) = Inl msg"
  shows "fst (liveSearch a env q p) =
           \<lparr>d_needsSearch = True, d_searchToolUsed = ''perplexity_web_search_failed'',
            d_searchContent = ''Error: Perplexity search failed for \"'' @ q @ ''\": '' @ msg,
            d_searchSources = [], d_isSearchSuccessful = False,
            d_calls = ToolCall ''perplexity_web_search'' q # snd (snd (PerplexitySearchTool_call t env q))\<rparr>"
  using assms
  by (cases "PerplexitySearchTool_call t env q") (auto simp add: liveSearch_def Let_def)

lemma GoogleGroundingTool_call_calls:
  "set (snd (snd (GoogleGroundingTool_call g env q))) \<subseteq> {ApiCall ''google_search_grounding'' q}"
  by (auto simp add: GoogleGroundingTool_call_def Let_def
        split: option.splits sum.splits prod.splits google_error.splits if_splits)

lemma liveSearch_google_selected:
  assumes "google_search_grounding a = Some g"
  shows "d_calls (fst (liveSearch a env q ''google''))
           = ToolCall ''google_search_grounding'' q # snd (snd (GoogleGroundingTool_call g env q))"
    and "d_searchToolUsed (fst (liveSearch a env q ''google''))
           \<in> {''google_search_grounding'', ''google_search_grounding_failed''}"
  using assms
  by (auto simp add: liveSearch_def Let_def split: prod.splits sum.splits)

lemma liveSearch_perplexity_only_if:
  assumes "ToolCall ''perplexity_web_search'' q' \<in> set (d_calls (fst (liveSearch a env q p)))"
  shows "p \<noteq> ''google'' \<or> google_search_grounding a = None"
proof (rule ccontr)
  assume "\<not> (p \<noteq> ''google'' \<or> google_search_grounding a = None)"
  then obtain g where g: "p = ''google''" "google_search_grounding a = Some g" by auto
  from assms liveSearch_google_selected(1)[OF g(2), of env q] GoogleGroundingTool_call_calls[of g env q] g(1)
  show False by auto
qed

lemma dispatchSearch_calls:
  "d_calls (fst (dispatchSearch a env q p ns)) = []
   \<or> d_calls (fst (dispatchSearch a env q p ns)) = d_calls (fst (liveSearch a env q p))"
  by (simp add: dispatchSearch_def split: option.splits)

lemma GoogleGroundingTool_call_failed:
  assumes "GoogleGroundingTool_call g env1 q = (Inl m, g1, cs)"
  shows "g1 = g"
    and "now_tool env1 \<le> now_tool env2 \<Longrightarrow> snd (snd (GoogleGroundingTool_call g env2 q)) = cs"
  using assms
  by (auto simp add: GoogleGroundingTool_call_def Let_def
        split: option.splits sum.splits prod.splits google_error.splits if_splits)

lemma PerplexitySearchTool_call_failed:
  assumes "PerplexitySearchTool_call t env1 q = (Inl m, t1, cs)"
  shows "t1 = t"
    and "now_tool env1 \<le> now_tool env2 \<Longrightarrow> snd (snd (PerplexitySearchTool_call t env2 q)) = cs"
  using assms
  by (auto simp add: PerplexitySearchTool_call_def searchWeb_def Let_def
        split: option.splits sum.splits prod.splits if_splits)

lemma liveSearch_failed:
  assumes "liveSearch a env1 q p = (d, a')" and "\<not> d_isSearchSuccessful d"
  shows "a' = a"
    and "now_tool env1 \<le> now_tool env2 \<Longrightarrow> d_calls (fst (liveSearch a env2 q p)) = d_calls d"
  using assms
  by (auto simp add: liveSearch_def Let_def
        split: option.splits sum.splits prod.splits if_splits
        dest: GoogleGroundingTool_call_failed PerplexitySearchTool_call_failed)

lemma liveSearch_success_calls:
  "d_isSearchSuccessful (fst (liveSearch a env q p)) \<Longrightarrow> d_calls (fst (liveSearch a env q p)) \<noteq> []"
  by (auto simp add: liveSearch_def Let_def split: option.splits sum.splits prod.splits if_splits)


lemma liveSearch_calls_head:
  "d_calls (fst (liveSearch a env q p)) = []
   \<or> (\<exists>name cs. d_calls (fst (liveSearch a env q p)) = ToolCall name q # cs)"
  by (auto simp add: liveSearch_def Let_def split: option.splits sum.splits prod.splits if_splits)

lemma dispatchSearch_cache:
  assumes "dispatchSearch a env q p ns = (d, a')"
  shows "searchCache a' =
           (if d_isSearchSuccessful d \<and> d_calls d \<noteq> []
            then (searchCache a)(cacheKeyOf q p \<mapsto>
                   \<lparr>ce_data = \<lparr>cd_content = d_searchContent d, cd_sources = d_searchSources d,
                               cd_toolUsed = d_searchToolUsed d\<rparr>,
                    ce_timestamp = now_store env\<rparr>)
            else searchCache a)"
proof (cases ns)
  case False
  with assms show ?thesis by (auto simp add: dispatchSearch_def)
next
  case True
  with assms have "dispatchSearch a env q p True = (d, a')" by simp
  then show ?thesis
  proof (cases rule: dispatchSearch_cases)
    case (hit e)
    then show ?thesis by simp
  next
    case miss
    from liveSearch_success_calls[of a env q p] miss(2)
    have "d_isSearchSuccessful d \<Longrightarrow> d_calls d \<noteq> []" by simp
    with liveSearch_cache(1)[OF miss(2)] show ?thesis by auto
  qed
qed

lemma dispatchSearch_retry:
  assumes first: "dispatchSearch a env1 q p True = (d1, a1)"
      and failed: "\<not> d_isSearchSuccessful d1"
      and called: "d_calls d1 \<noteq> []"
      and t1: "now_lookup env1 \<le> now_lookup env2"
      and t2: "now_tool env1 \<le> now_tool env2"
  shows "a1 = a"
    and "d_calls (fst (dispatchSearch a1 env2 q p True)) = d_calls d1"
    and "\<exists>name cs. d_calls (fst (dispatchSearch a1 env2 q p True)) = ToolCall name q # cs"
proof -
  from first failed
  have miss: "case searchCache a (cacheKeyOf q p) of None \<Rightarrow> True
                    | Some e \<Rightarrow> searchCacheTTL a \<le> now_lookup env1 - ce_timestamp e"
    and l: "liveSearch a env1 q p = (d1, a1)"
    by (cases rule: dispatchSearch_cases; simp)+
  from liveSearch_failed(1)[OF l failed] show a: "a1 = a" .
  from miss t1 have "case searchCache a (cacheKeyOf q p) of None \<Rightarrow> True
                    | Some e \<Rightarrow> searchCacheTTL a \<le> now_lookup env2 - ce_timestamp e"
    by (auto split: option.splits)
  then have "dispatchSearch a env2 q p True = liveSearch a env2 q p"
    by (rule dispatchSearch_miss)
  with a liveSearch_failed(2)[OF l failed t2]
  show c: "d_calls (fst (dispatchSearch a1 env2 q p True)) = d_calls d1" by simp
  from liveSearch_calls_head[of a env1 q p] l called
  have "\<exists>name cs. d_calls d1 = ToolCall name q # cs" by simp
  with c show "\<exists>name cs. d_calls (fst (dispatchSearch a1 env2 q p True)) = ToolCall name q # cs"
    by simp
qed

text \<open>
  C5. If a dispatch made a live search that succeeded (so that its result was stored at
  \<open>now_store\<close>), a second dispatch of the same query and provider whose cache check reads
  a time less than the TTL after that store makes no tool call and no upstream request,
  returns the same content and sources, and reports success.
\<close>

theorem dispatch_repeat_within_ttl:
  assumes first: "dispatchSearch a env1 q p True = (r1, a1)"
      and ok: "d_isSearchSuccessful r1"
      and live: "d_calls r1 \<noteq> []"
      and within: "now_lookup env2 - now_store env1 < searchCacheTTL a"
  shows "d_calls (fst (dispatchSearch a1 env2 q p True)) = []
       \<and> d_searchContent (fst (dispatchSearch a1 env2 q p True)) = d_searchContent r1
       \<and> d_searchSources (fst (dispatchSearch a1 env2 q p True)) = d_searchSources r1
       \<and> d_isSearchSuccessful (fst (dispatchSearch a1 env2 q p True))"
proof -
  from first live have l: "liveSearch a env1 q p = (r1, a1)"
    by (cases rule: dispatchSearch_cases) auto
  let ?e = "\<lparr>ce_data = \<lparr>cd_content = d_searchContent r1, cd_sources = d_searchSources r1,
                               cd_toolUsed = d_searchToolUsed r1\<rparr>,
                    ce_timestamp = now_store env1\<rparr>"
  from liveSearch_cache[OF l] ok have "searchCache a1 (cacheKeyOf q p) = Some ?e"
     and "searchCacheTTL a1 = searchCacheTTL a" by simp_all
  with within have "dispatchSearch a1 env2 q p True =
           (\<lparr>d_needsSearch = True, d_searchToolUsed = cd_toolUsed (ce_data ?e),
             d_searchContent = cd_content (ce_data ?e), d_searchSources = cd_sources (ce_data ?e),
             d_isSearchSuccessful = True, d_calls = []\<rparr>, a1)"
    by (intro dispatchSearch_hit) simp_all
  then show ?thesis by simp
qed

theorem dispatch_repeat_within_ttl_witness:
  "d_isSearchSuccessful (fst (dispatchSearch (newLangChainChatAgent allKeys) (calmEnv 1000) ''latest news'' ''openai'' True))
   \<and> d_calls (fst (dispatchSearch (newLangChainChatAgent allKeys) (calmEnv 1000) ''latest news'' ''openai'' True)) \<noteq> []
   \<and> now_lookup (calmEnv 300999) - now_store (calmEnv 1000) < searchCacheTTL (newLangChainChatAgent allKeys)
   \<and> d_calls (fst (dispatchSearch
         (snd (dispatchSearch (newLangChainChatAgent allKeys) (calmEnv 1000) ''latest news'' ''openai'' True))
         (calmEnv 300999) ''latest news'' ''openai'' True)) = []
   \<and> d_searchContent (fst (dispatchSearch
         (snd (dispatchSearch (newLangChainChatAgent allKeys) (calmEnv 1000) ''latest news'' ''openai'' True))
         (calmEnv 300999) ''latest news'' ''openai'' True))
       = d_searchContent (fst (dispatchSearch (newLangChainChatAgent allKeys) (calmEnv 1000) ''latest news'' ''openai'' True))
   \<and> d_searchSources (fst (dispatchSearch
         (snd (dispatchSearch (newLangChainChatAgent allKeys) (calmEnv 1000) ''latest news'' ''openai'' True))
         (calmEnv 300999) ''latest news'' ''openai'' True))
       = d_searchSources (fst (dispatchSearch (newLangChainChatAgent allKeys) (calmEnv 1000) ''latest news'' ''openai'' True))
   \<and> d_isSearchSuccessful (fst (dispatchSearch
         (snd (dispatchSearch (newLangChainChatAgent allKeys) (calmEnv 1000) ''latest news'' ''openai'' True))
         (calmEnv 300999) ''latest news'' ''openai'' True))"
proof -
  have h0: "dispatchSearch (newLangChainChatAgent allKeys) (calmEnv 1000) ''latest news'' ''openai'' True
          = (fst (dispatchSearch (newLangChainChatAgent allKeys) (calmEnv 1000) ''latest news'' ''openai'' True),
             snd (dispatchSearch (newLangChainChatAgent allKeys) (calmEnv 1000) ''latest news'' ''openai'' True))"
    by simp
  have h1: "d_isSearchSuccessful (fst (dispatchSearch (newLangChainChatAgent allKeys) (calmEnv 1000) ''latest news'' ''openai'' True))"
    by code_simp
  have h2: "d_calls (fst (dispatchSearch (newLangChainChatAgent allKeys) (calmEnv 1000) ''latest news'' ''openai'' True)) \<noteq> []"
    by code_simp
  have h3: "now_lookup (calmEnv 300999) - now_store (calmEnv 1000) < searchCacheTTL (newLangChainChatAgent allKeys)"
    by code_simp
  from dispatch_repeat_within_ttl [OF h0 h1 h2 h3] h1 h2 h3
  show ?thesis by blast
qed

text \<open>
  C6. In each of the three caches an entry whose age is at least the TTL (the boundary
  included) is not used: the dispatcher takes the cache-miss branch, and the dispatcher
  and both tools return the result and make the calls they would with the entry absent.
\<close>

theorem expired_entry_is_a_miss:
  "(searchCache a (cacheKeyOf q p) = Some e \<and> searchCacheTTL a \<le> now_lookup env - ce_timestamp e
      \<longrightarrow> dispatchSearch a env q p True = liveSearch a env q p
        \<and> fst (dispatchSearch a env q p True)
            = fst (dispatchSearch (a\<lparr>searchCache := (searchCache a)(cacheKeyOf q p := None)\<rparr>) env q p True))
   \<and> (pt_cache pt (toLowerCase q) = Some pe \<and> pt_cacheTTL pt \<le> now_tool env - pe_timestamp pe
      \<longrightarrow> (case PerplexitySearchTool_call pt env q of (r, t', cs) \<Rightarrow> (r, cs))
          = (case PerplexitySearchTool_call (pt\<lparr>pt_cache := (pt_cache pt)(toLowerCase q := None)\<rparr>) env q
               of (r, t', cs) \<Rightarrow> (r, cs)))
   \<and> (gt_cache gt (''grounded_'' @ toLowerCase q) = Some ge \<and> gt_cacheTTL gt \<le> now_tool env - ge_timestamp ge
      \<longrightarrow> (case GoogleGroundingTool_call gt env q of (r, t', cs) \<Rightarrow> (r, cs))
          = (case GoogleGroundingTool_call (gt\<lparr>gt_cache := (gt_cache gt)(''grounded_'' @ toLowerCase q := None)\<rparr>) env q
               of (r, t', cs) \<Rightarrow> (r, cs)))"
proof (intro conjI impI)
  assume h: "searchCache a (cacheKeyOf q p) = Some e \<and> searchCacheTTL a \<le> now_lookup env - ce_timestamp e"
  then show m: "dispatchSearch a env q p True = liveSearch a env q p"
    by (intro dispatchSearch_miss) simp
  have "dispatchSearch (a\<lparr>searchCache := (searchCache a)(cacheKeyOf q p := None)\<rparr>) env q p True
          = liveSearch (a\<lparr>searchCache := (searchCache a)(cacheKeyOf q p := None)\<rparr>) env q p"
    by (intro dispatchSearch_miss) simp
  with m show "fst (dispatchSearch a env q p True)
            = fst (dispatchSearch (a\<lparr>searchCache := (searchCache a)(cacheKeyOf q p := None)\<rparr>) env q p True)"
    by (simp add: liveSearch_ignores_cache)
next
  assume "pt_cache pt (toLowerCase q) = Some pe \<and> pt_cacheTTL pt \<le> now_tool env - pe_timestamp pe"
  then show "(case PerplexitySearchTool_call pt env q of (r, t', cs) \<Rightarrow> (r, cs))
          = (case PerplexitySearchTool_call (pt\<lparr>pt_cache := (pt_cache pt)(toLowerCase q := None)\<rparr>) env q
               of (r, t', cs) \<Rightarrow> (r, cs))"
    using PerplexitySearchTool_call_stale by blast
next
  assume "gt_cache gt (''grounded_'' @ toLowerCase q) = Some ge \<and> gt_cacheTTL gt \<le> now_tool env - ge_timestamp ge"
  then show "(case GoogleGroundingTool_call gt env q of (r, t', cs) \<Rightarrow> (r, cs))
          = (case GoogleGroundingTool_call (gt\<lparr>gt_cache := (gt_cache gt)(''grounded_'' @ toLowerCase q := None)\<rparr>) env q
               of (r, t', cs) \<Rightarrow> (r, cs))"
    using GoogleGroundingTool_call_stale by blast
qed

theorem expired_entry_is_a_miss_witness:
  "(searchCache staleAgent (cacheKeyOf ''latest news'' ''openai'')
       = Some \<lparr>ce_data = \<lparr>cd_content = ''Old news.'', cd_sources = [], cd_toolUsed = ''perplexity_web_search''\<rparr>,
               ce_timestamp = 0\<rparr>
    \<and> searchCacheTTL staleAgent \<le> now_lookup (calmEnv 300000) - 0
    \<and> dispatchSearch staleAgent (calmEnv 300000) ''latest news'' ''openai'' True
        = liveSearch staleAgent (calmEnv 300000) ''latest news'' ''openai'')
   \<and> (pt_cache stalePerplexityTool (toLowerCase ''Latest News'')
       = Some \<lparr>pe_data = \<lparr>content = ''Old news.'', sources = [], citations = []\<rparr>, pe_timestamp = 0\<rparr>
    \<and> pt_cacheTTL stalePerplexityTool \<le> now_tool (calmEnv 300000) - 0
    \<and> (case PerplexitySearchTool_call stalePerplexityTool (calmEnv 300000) ''Latest News'' of (r, t', cs) \<Rightarrow> (r, cs))
        = (case PerplexitySearchTool_call
                  (stalePerplexityTool\<lparr>pt_cache := (pt_cache stalePerplexityTool)(toLowerCase ''Latest News'' := None)\<rparr>)
                  (calmEnv 300000) ''Latest News'' of (r, t', cs) \<Rightarrow> (r, cs)))
   \<and> (gt_cache staleGoogleTool (''grounded_'' @ toLowerCase ''Latest News'')
       = Some \<lparr>ge_data = ''Old news.'', ge_timestamp = 0, ge_citations = None\<rparr>
    \<and> gt_cacheTTL staleGoogleTool \<le> now_tool (calmEnv 300000) - 0
    \<and> (case GoogleGroundingTool_call staleGoogleTool (calmEnv 300000) ''Latest News'' of (r, t', cs) \<Rightarrow> (r, cs))
        = (case GoogleGroundingTool_call
                  (staleGoogleTool\<lparr>gt_cache := (gt_cache staleGoogleTool)(''grounded_'' @ toLowerCase ''Latest News'' := None)\<rparr>)
                  (calmEnv 300000) ''Latest News'' of (r, t', cs) \<Rightarrow> (r, cs)))"
proof -
  have a1: "searchCache staleAgent (cacheKeyOf ''latest news'' ''openai'')
       = Some \<lparr>ce_data = \<lparr>cd_content = ''Old news.'', cd_sources = [], cd_toolUsed = ''perplexity_web_search''\<rparr>,
               ce_timestamp = 0\<rparr>"
    by (simp add: staleAgent_def)
  have a2: "searchCacheTTL staleAgent \<le> now_lookup (calmEnv 300000) - 0"
    by (simp add: staleAgent_def newLangChainChatAgent_def calmEnv_def)
  have b1: "pt_cache stalePerplexityTool (toLowerCase ''Latest News'')
       = Some \<lparr>pe_data = \<lparr>content = ''Old news.'', sources = [], citations = []\<rparr>, pe_timestamp = 0\<rparr>"
    by (simp add: stalePerplexityTool_def toLowerCase_def toLowerChar_def)
  have b2: "pt_cacheTTL stalePerplexityTool \<le> now_tool (calmEnv 300000) - 0"
    by (simp add: stalePerplexityTool_def newPerplexitySearchTool_def calmEnv_def)
  have c1: "gt_cache staleGoogleTool (''grounded_'' @ toLowerCase ''Latest News'')
       = Some \<lparr>ge_data = ''Old news.'', ge_timestamp = 0, ge_citations = None\<rparr>"
    by (simp add: staleGoogleTool_def toLowerCase_def toLowerChar_def)
  have c2: "gt_cacheTTL staleGoogleTool \<le> now_tool (calmEnv 300000) - 0"
    by (simp add: staleGoogleTool_def newGoogleGroundingTool_def calmEnv_def)
  from expired_entry_is_a_miss [where a = staleAgent and q = "''latest news''" and p = "''openai''"
         and env = "calmEnv 300000"
         and e = "\<lparr>ce_data = \<lparr>cd_content = ''Old news.'', cd_sources = [], cd_toolUsed = ''perplexity_web_search''\<rparr>,
               ce_timestamp = 0\<rparr>"]
       a1 a2
  have A: "dispatchSearch staleAgent (calmEnv 300000) ''latest news'' ''openai'' True
        = liveSearch staleAgent (calmEnv 300000) ''latest news'' ''openai''"
    by simp
  from expired_entry_is_a_miss [where pt = stalePerplexityTool and q = "''Latest News''"
         and env = "calmEnv 300000"
         and pe = "\<lparr>pe_data = \<lparr>content = ''Old news.'', sources = [], citations = []\<rparr>, pe_timestamp = 0\<rparr>"
         and gt = staleGoogleTool
         and ge = "\<lparr>ge_data = ''Old news.'', ge_timestamp = 0, ge_citations = None\<rparr>"]
       b1 b2 c1 c2
  have B: "(case PerplexitySearchTool_call stalePerplexityTool (calmEnv 300000) ''Latest News'' of (r, t', cs) \<Rightarrow> (r, cs))
        = (case PerplexitySearchTool_call
                  (stalePerplexityTool\<lparr>pt_cache := (pt_cache stalePerplexityTool)(toLowerCase ''Latest News'' := None)\<rparr>)
                  (calmEnv 300000) ''Latest News'' of (r, t', cs) \<Rightarrow> (r, cs))"
    and C: "(case GoogleGroundingTool_call staleGoogleTool (calmEnv 300000) ''Latest News'' of (r, t', cs) \<Rightarrow> (r, cs))
        = (case GoogleGroundingTool_call
                  (staleGoogleTool\<lparr>gt_cache := (gt_cache staleGoogleTool)(''grounded_'' @ toLowerCase ''Latest News'' := None)\<rparr>)
                  (calmEnv 300000) ''Latest News'' of (r, t', cs) \<Rightarrow> (r, cs))"
    by simp_all
  from a1 a2 b1 b2 c1 c2 A B C show ?thesis by blast
qed

text \<open>The boundary on concrete caches: an entry written at time 0 is still served at time
  299999 and is replaced by a live result at time 300000.\<close>

lemma expiry_boundary_example:
  "fst (PerplexitySearchTool_call stalePerplexityTool (calmEnv 299999) ''Latest News'') = Inr ''Old news.''
   \<and> fst (PerplexitySearchTool_call stalePerplexityTool (calmEnv 300000) ''Latest News'') = Inr ''Paris.''
   \<and> fst (GoogleGroundingTool_call staleGoogleTool (calmEnv 299999) ''Latest News'') = Inr ''Old news.''
   \<and> fst (GoogleGroundingTool_call staleGoogleTool (calmEnv 300000) ''Latest News'') = Inr ''Paris.''
   \<and> d_searchContent (fst (dispatchSearch staleAgent (calmEnv 299999) ''latest news'' ''openai'' True)) = ''Old news.''
   \<and> d_searchContent (fst (dispatchSearch staleAgent (calmEnv 300000) ''latest news'' ''openai'' True)) = ''Paris.''"
  by code_simp

text \<open>
  C7. With a resolved model, a request that needs a search and misses the dispatcher's
  cache: when the \<open>_call\<close> of the selected tool (the grounding tool for provider \<open>google\<close> when
  it is configured, the Perplexity tool otherwise) throws with message \<open>msg\<close>, nothing is
  thrown further. The search is marked unsuccessful, the tool used is the tool's name followed
  by \<open>_failed\<close>, the content is a note that embeds the query and \<open>msg\<close>, and the agent is left
  as it was. The run goes on: after the tool call the generation call is made on the resolved
  client with the direct prompt, and the frames are the metadata frame, the frames of that
  generation, and \<open>End\<close>. When the stream of the resolved client ends normally, the frames
  are the metadata frame, one \<open>Chunk\<close> for each non-empty delta the stream delivered, and
  \<open>End\<close>: no \<open>Error\<close> frame is written for the failure of the tool.
\<close>

theorem adapter_failure_degrades_softly:
  assumes llm: "getLLM a env p n = Inr (Some llm)"
      and ns: "f \<or> shouldSearchWeb q"
      and miss: "case searchCache a (cacheKeyOf q p) of None \<Rightarrow> True
                 | Some e \<Rightarrow> searchCacheTTL a \<le> now_lookup env - ce_timestamp e"
      and throws:
        "(p = ''google'' \<and> google_search_grounding a = Some g
            \<and> name = ''google_search_grounding'' \<and> label = ''Google Grounding''
            \<and> fst (GoogleGroundingTool_call g env q) = Inl msg
            \<and> cs = snd (snd (GoogleGroundingTool_call g env q)))
         \<or> ((p \<noteq> ''google'' \<or> google_search_grounding a = None) \<and> perplexity_web_search a = Some t
            \<and> name = ''perplexity_web_search'' \<and> label = ''Perplexity search''
            \<and> fst (PerplexitySearchTool_call t env q) = Inl msg
            \<and> cs = snd (snd (PerplexitySearchTool_call t env q)))"
  shows "fst (dispatchSearch a env q p (f \<or> shouldSearchWeb q)) =
           \<lparr>d_needsSearch = True, d_searchToolUsed = name @ ''_failed'',
            d_searchContent = ''Error: '' @ label @ '' failed for \"'' @ q @ ''\": '' @ msg,
            d_searchSources = [], d_isSearchSuccessful = False,
            d_calls = ToolCall name q # cs\<rparr>
       \<and> r_thrown (processMessage a env q p n f) = None
       \<and> r_yielded (processMessage a env q p n f) =
           Metadata True (name @ ''_failed'') [] False # generationFrames (streamGenerate a env llm (directPrompt q) q) @ [End]
       \<and> r_calls (processMessage a env q p n f) = GetLLM p n # ToolCall name q # cs @ g_calls (streamGenerate a env llm (directPrompt q) q)
       \<and> (\<exists>rest. g_calls (streamGenerate a env llm (directPrompt q) q) = StreamCall llm (directPrompt q) # rest)
       \<and> r_agent (processMessage a env q p n f) = a
       \<and> (\<forall>chunks. llm_stream env llm (directPrompt q) = (chunks, None) \<longrightarrow>
             r_yielded (processMessage a env q p n f) =
               Metadata True (name @ ''_failed'') [] False
               # map Chunk (filter (\<lambda>c. c \<noteq> []) chunks) @ [End]
           \<and> r_calls (processMessage a env q p n f) =
               GetLLM p n # ToolCall name q # cs @ [StreamCall llm (directPrompt q)])"
proof -
  from ns miss have d: "dispatchSearch a env q p (f \<or> shouldSearchWeb q) = liveSearch a env q p"
    using dispatchSearch_miss by simp
  from throws have l: "fst (liveSearch a env q p) =
           \<lparr>d_needsSearch = True, d_searchToolUsed = name @ ''_failed'',
            d_searchContent = ''Error: '' @ label @ '' failed for \"'' @ q @ ''\": '' @ msg,
            d_searchSources = [], d_isSearchSuccessful = False,
            d_calls = ToolCall name q # cs\<rparr>"
  proof
    assume h: "p = ''google'' \<and> google_search_grounding a = Some g
            \<and> name = ''google_search_grounding'' \<and> label = ''Google Grounding''
            \<and> fst (GoogleGroundingTool_call g env q) = Inl msg
            \<and> cs = snd (snd (GoogleGroundingTool_call g env q))"
    then have "google_search_grounding a = Some g" "fst (GoogleGroundingTool_call g env q) = Inl msg"
      by simp_all
    from liveSearch_google_failed [OF this] h show ?thesis by simp
  next
    assume h: "(p \<noteq> ''google'' \<or> google_search_grounding a = None) \<and> perplexity_web_search a = Some t
            \<and> name = ''perplexity_web_search'' \<and> label = ''Perplexity search''
            \<and> fst (PerplexitySearchTool_call t env q) = Inl msg
            \<and> cs = snd (snd (PerplexitySearchTool_call t env q))"
    then have "p \<noteq> ''google'' \<or> google_search_grounding a = None" "perplexity_web_search a = Some t"
        "fst (PerplexitySearchTool_call t env q) = Inl msg"
      by simp_all
    from liveSearch_perplexity_failed [OF this] h show ?thesis by simp
  qed
  obtain a1 where a1: "liveSearch a env q p =
           (\<lparr>d_needsSearch = True, d_searchToolUsed = name @ ''_failed'',
            d_searchContent = ''Error: '' @ label @ '' failed for \"'' @ q @ ''\": '' @ msg,
            d_searchSources = [], d_isSearchSuccessful = False,
            d_calls = ToolCall name q # cs\<rparr>, a1)"
    using l by (cases "liveSearch a env q p") auto
  from liveSearch_failed(1) [OF a1] have "a1 = a" by simp
  with a1 d have dd: "dispatchSearch a env q p (f \<or> shouldSearchWeb q) =
           (\<lparr>d_needsSearch = True, d_searchToolUsed = name @ ''_failed'',
            d_searchContent = ''Error: '' @ label @ '' failed for \"'' @ q @ ''\": '' @ msg,
            d_searchSources = [], d_isSearchSuccessful = False,
            d_calls = ToolCall name q # cs\<rparr>, a)"
    by simp
  have run: "processMessage a env q p n f =
           \<lparr>r_yielded = Metadata True (name @ ''_failed'') [] False # generationFrames (streamGenerate a env llm (directPrompt q) q) @ [End],
            r_thrown = None,
            r_calls = GetLLM p n # ToolCall name q # cs @ g_calls (streamGenerate a env llm (directPrompt q) q),
            r_agent = a\<rparr>"
    using processMessage_run [OF llm dd] by simp
  have ok: "r_yielded (processMessage a env q p n f) =
               Metadata True (name @ ''_failed'') [] False
               # map Chunk (filter (\<lambda>c. c \<noteq> []) chunks) @ [End]
           \<and> r_calls (processMessage a env q p n f) =
               GetLLM p n # ToolCall name q # cs @ [StreamCall llm (directPrompt q)]"
    if "llm_stream env llm (directPrompt q) = (chunks, None)" for chunks
    using run streamGenerate_ok [OF that, of a q] by (simp add: generationFrames_def)
  from dd run ok streamGenerate_calls_head [of a env llm "directPrompt q" q]
  show ?thesis by simp
qed

theorem adapter_failure_degrades_softly_witness:
  "(getLLM (newLangChainChatAgent allKeys) (stormEnv 0) ''google'' ''gemini-2.5-pro''
        = Inr (Some (Client ChatGoogleGenerativeAI ''gemini-2.5-pro'' 2))
    \<and> shouldSearchWeb ''latest news''
    \<and> searchCache (newLangChainChatAgent allKeys) (cacheKeyOf ''latest news'' ''google'') = None
    \<and> google_search_grounding (newLangChainChatAgent allKeys) = Some (newGoogleGroundingTool (Some ''g-key''))
    \<and> GoogleGroundingTool_call (newGoogleGroundingTool (Some ''g-key'')) (stormEnv 0) ''latest news''
        = (Inl ''Google Grounding failed: quota exceeded.'', newGoogleGroundingTool (Some ''g-key''),
           [ApiCall ''google_search_grounding'' ''latest news''])
    \<and> llm_stream (stormEnv 0) (Client ChatGoogleGenerativeAI ''gemini-2.5-pro'' 2) (directPrompt ''latest news'')
        = ([''Sorry.''], None)
    \<and> d_searchContent (fst (dispatchSearch (newLangChainChatAgent allKeys) (stormEnv 0) ''latest news'' ''google''
                               (False \<or> shouldSearchWeb ''latest news'')))
        = ''Error: Google Grounding failed for \"latest news\": Google Grounding failed: quota exceeded.''
    \<and> r_yielded (processMessage (newLangChainChatAgent allKeys) (stormEnv 0) ''latest news'' ''google'' ''gemini-2.5-pro'' False)
        = [Metadata True ''google_search_grounding_failed'' [] False, Chunk ''Sorry.'', End]
    \<and> r_calls (processMessage (newLangChainChatAgent allKeys) (stormEnv 0) ''latest news'' ''google'' ''gemini-2.5-pro'' False)
        = [GetLLM ''google'' ''gemini-2.5-pro'',
           ToolCall ''google_search_grounding'' ''latest news'',
           ApiCall ''google_search_grounding'' ''latest news'',
           StreamCall (Client ChatGoogleGenerativeAI ''gemini-2.5-pro'' 2) (directPrompt ''latest news'')])
   \<and> (getLLM (newLangChainChatAgent allKeys) (stormEnv 0) ''openai'' ''gpt-4-turbo''
        = Inr (Some (Client ChatOpenAI ''gpt-4-turbo'' 2))
    \<and> searchCache (newLangChainChatAgent allKeys) (cacheKeyOf ''latest news'' ''openai'') = None
    \<and> perplexity_web_search (newLangChainChatAgent allKeys) = Some (newPerplexitySearchTool (Some ''pplx-key''))
    \<and> PerplexitySearchTool_call (newPerplexitySearchTool (Some ''pplx-key'')) (stormEnv 0) ''latest news''
        = (Inl ''Failed to perform Perplexity search: Perplexity API error: 503'',
           newPerplexitySearchTool (Some ''pplx-key''),
           [ApiCall ''perplexity_web_search'' ''latest news''])
    \<and> llm_stream (stormEnv 0) (Client ChatOpenAI ''gpt-4-turbo'' 2) (directPrompt ''latest news'')
        = ([''Sorry.''], None)
    \<and> d_searchContent (fst (dispatchSearch (newLangChainChatAgent allKeys) (stormEnv 0) ''latest news'' ''openai''
                               (False \<or> shouldSearchWeb ''latest news'')))
        = ''Error: Perplexity search failed for \"latest news\": Failed to perform Perplexity search: Perplexity API error: 503''
    \<and> r_yielded (processMessage (newLangChainChatAgent allKeys) (stormEnv 0) ''latest news'' ''openai'' ''gpt-4-turbo'' False)
        = [Metadata True ''perplexity_web_search_failed'' [] False, Chunk ''Sorry.'', End]
    \<and> r_calls (processMessage (newLangChainChatAgent allKeys) (stormEnv 0) ''latest news'' ''openai'' ''gpt-4-turbo'' False)
        = [GetLLM ''openai'' ''gpt-4-turbo'',
           ToolCall ''perplexity_web_search'' ''latest news'',
           ApiCall ''perplexity_web_search'' ''latest news'',
           StreamCall (Client ChatOpenAI ''gpt-4-turbo'' 2) (directPrompt ''latest news'')])"
proof -
  have g1: "getLLM (newLangChainChatAgent allKeys) (stormEnv 0) ''google'' ''gemini-2.5-pro''
        = Inr (Some (Client ChatGoogleGenerativeAI ''gemini-2.5-pro'' 2))"
    by code_simp
  have s: "False \<or> shouldSearchWeb ''latest news''" by code_simp
  have g2: "searchCache (newLangChainChatAgent allKeys) (cacheKeyOf ''latest news'' ''google'') = None"
    by (simp add: newLangChainChatAgent_def)
  have g2': "case searchCache (newLangChainChatAgent allKeys) (cacheKeyOf ''latest news'' ''google'') of None \<Rightarrow> True
             | Some e \<Rightarrow> searchCacheTTL (newLangChainChatAgent allKeys) \<le> now_lookup (stormEnv 0) - ce_timestamp e"
    by (simp add: g2)
  have g3: "google_search_grounding (newLangChainChatAgent allKeys) = Some (newGoogleGroundingTool (Some ''g-key''))"
    by (simp add: newLangChainChatAgent_def allKeys_def isSet_def)
  have g4: "GoogleGroundingTool_call (newGoogleGroundingTool (Some ''g-key'')) (stormEnv 0) ''latest news''
        = (Inl ''Google Grounding failed: quota exceeded.'', newGoogleGroundingTool (Some ''g-key''),
           [ApiCall ''google_search_grounding'' ''latest news''])"
    by (simp add: GoogleGroundingTool_call_def newGoogleGroundingTool_def stormEnv_def isSet_def)
  have g5: "llm_stream (stormEnv 0) (Client ChatGoogleGenerativeAI ''gemini-2.5-pro'' 2) (directPrompt ''latest news'')
        = ([''Sorry.''], None)"
    by (simp add: stormEnv_def)
  have o1: "getLLM (newLangChainChatAgent allKeys) (stormEnv 0) ''openai'' ''gpt-4-turbo''
        = Inr (Some (Client ChatOpenAI ''gpt-4-turbo'' 2))"
    by code_simp
  have o2: "searchCache (newLangChainChatAgent allKeys) (cacheKeyOf ''latest news'' ''openai'') = None"
    by (simp add: newLangChainChatAgent_def)
  have o2': "case searchCache (newLangChainChatAgent allKeys) (cacheKeyOf ''latest news'' ''openai'') of None \<Rightarrow> True
             | Some e \<Rightarrow> searchCacheTTL (newLangChainChatAgent allKeys) \<le> now_lookup (stormEnv 0) - ce_timestamp e"
    by (simp add: o2)
  have o3: "perplexity_web_search (newLangChainChatAgent allKeys) = Some (newPerplexitySearchTool (Some ''pplx-key''))"
    by (simp add: newLangChainChatAgent_def allKeys_def isSet_def)
  have o4: "PerplexitySearchTool_call (newPerplexitySearchTool (Some ''pplx-key'')) (stormEnv 0) ''latest news''
        = (Inl ''Failed to perform Perplexity search: Perplexity API error: 503'',
           newPerplexitySearchTool (Some ''pplx-key''),
           [ApiCall ''perplexity_web_search'' ''latest news''])"
    by (simp add: PerplexitySearchTool_call_def searchWeb_def newPerplexitySearchTool_def stormEnv_def isSet_def)
  have o5: "llm_stream (stormEnv 0) (Client ChatOpenAI ''gpt-4-turbo'' 2) (directPrompt ''latest news'')
        = ([''Sorry.''], None)"
    by (simp add: stormEnv_def)
  have gt: "(''google'' = ''google'' \<and> google_search_grounding (newLangChainChatAgent allKeys) = Some (newGoogleGroundingTool (Some ''g-key''))
            \<and> ''google_search_grounding'' = ''google_search_grounding'' \<and> ''Google Grounding'' = ''Google Grounding''
            \<and> fst (GoogleGroundingTool_call (newGoogleGroundingTool (Some ''g-key'')) (stormEnv 0) ''latest news'')
                = Inl ''Google Grounding failed: quota exceeded.''
            \<and> [ApiCall ''google_search_grounding'' ''latest news'']
                = snd (snd (GoogleGroundingTool_call (newGoogleGroundingTool (Some ''g-key'')) (stormEnv 0) ''latest news'')))
         \<or> ((''google'' \<noteq> ''google'' \<or> google_search_grounding (newLangChainChatAgent allKeys) = None)
            \<and> perplexity_web_search (newLangChainChatAgent allKeys) = Some (newPerplexitySearchTool (Some ''pplx-key''))
            \<and> ''google_search_grounding'' = ''perplexity_web_search'' \<and> ''Google Grounding'' = ''Perplexity search''
            \<and> fst (PerplexitySearchTool_call (newPerplexitySearchTool (Some ''pplx-key'')) (stormEnv 0) ''latest news'')
                = Inl ''Google Grounding failed: quota exceeded.''
            \<and> [ApiCall ''google_search_grounding'' ''latest news'']
                = snd (snd (PerplexitySearchTool_call (newPerplexitySearchTool (Some ''pplx-key'')) (stormEnv 0) ''latest news'')))"
    using g3 g4 by simp
  note GT = adapter_failure_degrades_softly [OF g1 s g2' gt]
  from GT have G1: "d_searchContent (fst (dispatchSearch (newLangChainChatAgent allKeys) (stormEnv 0) ''latest news'' ''google''
                               (False \<or> shouldSearchWeb ''latest news'')))
        = ''Error: Google Grounding failed for \"latest news\": Google Grounding failed: quota exceeded.''"
    by simp
  from GT g5 have "r_yielded (processMessage (newLangChainChatAgent allKeys) (stormEnv 0) ''latest news'' ''google'' ''gemini-2.5-pro'' False)
        = Metadata True (''google_search_grounding'' @ ''_failed'') [] False
          # map Chunk (filter (\<lambda>c. c \<noteq> []) [''Sorry.'']) @ [End]
    \<and> r_calls (processMessage (newLangChainChatAgent allKeys) (stormEnv 0) ''latest news'' ''google'' ''gemini-2.5-pro'' False)
        = GetLLM ''google'' ''gemini-2.5-pro'' # ToolCall ''google_search_grounding'' ''latest news''
          # [ApiCall ''google_search_grounding'' ''latest news'']
          @ [StreamCall (Client ChatGoogleGenerativeAI ''gemini-2.5-pro'' 2) (directPrompt ''latest news'')]"
    by blast
  with G1 have G: "d_searchContent (fst (dispatchSearch (newLangChainChatAgent allKeys) (stormEnv 0) ''latest news'' ''google''
                               (False \<or> shouldSearchWeb ''latest news'')))
        = ''Error: Google Grounding failed for \"latest news\": Google Grounding failed: quota exceeded.''
    \<and> r_yielded (processMessage (newLangChainChatAgent allKeys) (stormEnv 0) ''latest news'' ''google'' ''gemini-2.5-pro'' False)
        = [Metadata True ''google_search_grounding_failed'' [] False, Chunk ''Sorry.'', End]
    \<and> r_calls (processMessage (newLangChainChatAgent allKeys) (stormEnv 0) ''latest news'' ''google'' ''gemini-2.5-pro'' False)
        = [GetLLM ''google'' ''gemini-2.5-pro'',
           ToolCall ''google_search_grounding'' ''latest news'',
           ApiCall ''google_search_grounding'' ''latest news'',
           StreamCall (Client ChatGoogleGenerativeAI ''gemini-2.5-pro'' 2) (directPrompt ''latest news'')]"
    by simp
  have pt: "(''openai'' = ''google'' \<and> google_search_grounding (newLangChainChatAgent allKeys) = Some (newGoogleGroundingTool (Some ''g-key''))
            \<and> ''perplexity_web_search'' = ''google_search_grounding'' \<and> ''Perplexity search'' = ''Google Grounding''
            \<and> fst (GoogleGroundingTool_call (newGoogleGroundingTool (Some ''g-key'')) (stormEnv 0) ''latest news'')
                = Inl ''Failed to perform Perplexity search: Perplexity API error: 503''
            \<and> [ApiCall ''perplexity_web_search'' ''latest news'']
                = snd (snd (GoogleGroundingTool_call (newGoogleGroundingTool (Some ''g-key'')) (stormEnv 0) ''latest news'')))
         \<or> ((''openai'' \<noteq> ''google'' \<or> google_search_grounding (newLangChainChatAgent allKeys) = None)
            \<and> perplexity_web_search (newLangChainChatAgent allKeys) = Some (newPerplexitySearchTool (Some ''pplx-key''))
            \<and> ''perplexity_web_search'' = ''perplexity_web_search'' \<and> ''Perplexity search'' = ''Perplexity search''
            \<and> fst (PerplexitySearchTool_call (newPerplexitySearchTool (Some ''pplx-key'')) (stormEnv 0) ''latest news'')
                = Inl ''Failed to perform Perplexity search: Perplexity API error: 503''
            \<and> [ApiCall ''perplexity_web_search'' ''latest news'']
                = snd (snd (PerplexitySearchTool_call (newPerplexitySearchTool (Some ''pplx-key'')) (stormEnv 0) ''latest news'')))"
    using o3 o4 by simp
  note PT = adapter_failure_degrades_softly [OF o1 s o2' pt]
  from PT have P1: "d_searchContent (fst (dispatchSearch (newLangChainChatAgent allKeys) (stormEnv 0) ''latest news'' ''openai''
                               (False \<or> shouldSearchWeb ''latest news'')))
        = ''Error: Perplexity search failed for \"latest news\": Failed to perform Perplexity search: Perplexity API error: 503''"
    by simp
  from PT o5 have "r_yielded (processMessage (newLangChainChatAgent allKeys) (stormEnv 0) ''latest news'' ''openai'' ''gpt-4-turbo'' False)
        = Metadata True (''perplexity_web_search'' @ ''_failed'') [] False
          # map Chunk (filter (\<lambda>c. c \<noteq> []) [''Sorry.'']) @ [End]
    \<and> r_calls (processMessage (newLangChainChatAgent allKeys) (stormEnv 0) ''latest news'' ''openai'' ''gpt-4-turbo'' False)
        = GetLLM ''openai'' ''gpt-4-turbo'' # ToolCall ''perplexity_web_search'' ''latest news''
          # [ApiCall ''perplexity_web_search'' ''latest news'']
          @ [StreamCall (Client ChatOpenAI ''gpt-4-turbo'' 2) (directPrompt ''latest news'')]"
    by blast
  with P1 have P: "d_searchContent (fst (dispatchSearch (newLangChainChatAgent allKeys) (stormEnv 0) ''latest news'' ''openai''
                               (False \<or> shouldSearchWeb ''latest news'')))
        = ''Error: Perplexity search failed for \"latest news\": Failed to perform Perplexity search: Perplexity API error: 503''
    \<and> r_yielded (processMessage (newLangChainChatAgent allKeys) (stormEnv 0) ''latest news'' ''openai'' ''gpt-4-turbo'' False)
        = [Metadata True ''perplexity_web_search_failed'' [] False, Chunk ''Sorry.'', End]
    \<and> r_calls (processMessage (newLangChainChatAgent allKeys) (stormEnv 0) ''latest news'' ''openai'' ''gpt-4-turbo'' False)
        = [GetLLM ''openai'' ''gpt-4-turbo'',
           ToolCall ''perplexity_web_search'' ''latest news'',
           ApiCall ''perplexity_web_search'' ''latest news'',
           StreamCall (Client ChatOpenAI ''gpt-4-turbo'' 2) (directPrompt ''latest news'')]"
    by simp
  have s': "shouldSearchWeb ''latest news''" using s by simp
  from g1 s' g2 g3 g4 g5 G o1 o2 o3 o4 o5 P show ?thesis by blast
qed

text \<open>
  C8. For provider \<open>google\<close> with the grounding tool configured, the live search calls
  that tool, whatever else is configured, and a dispatch calls no other tool; the Perplexity
  tool is called only when the provider is not \<open>google\<close> or the grounding tool is absent.
\<close>

theorem google_prefers_grounding:
  "(google_search_grounding a = Some g
      \<longrightarrow> d_calls (fst (liveSearch a env q ''google''))
            = ToolCall ''google_search_grounding'' q # snd (snd (GoogleGroundingTool_call g env q))
        \<and> d_searchToolUsed (fst (liveSearch a env q ''google''))
            \<in> {''google_search_grounding'', ''google_search_grounding_failed''}
        \<and> (\<forall>c \<in> set (d_calls (fst (dispatchSearch a env q ''google'' ns))).
              c = ToolCall ''google_search_grounding'' q \<or> c = ApiCall ''google_search_grounding'' q))
   \<and> (ToolCall ''perplexity_web_search'' q \<in> set (d_calls (fst (dispatchSearch a env q p ns)))
      \<longrightarrow> p \<noteq> ''google'' \<or> google_search_grounding a = None)"
proof (intro conjI impI ballI)
  assume g: "google_search_grounding a = Some g"
  show "d_calls (fst (liveSearch a env q ''google''))
            = ToolCall ''google_search_grounding'' q # snd (snd (GoogleGroundingTool_call g env q))"
    by (rule liveSearch_google_selected(1)[OF g])
  show "d_searchToolUsed (fst (liveSearch a env q ''google''))
            \<in> {''google_search_grounding'', ''google_search_grounding_failed''}"
    by (rule liveSearch_google_selected(2)[OF g])
  fix c assume "c \<in> set (d_calls (fst (dispatchSearch a env q ''google'' ns)))"
  with dispatchSearch_calls[of a env q "''google''" ns]
  have "c \<in> set (d_calls (fst (liveSearch a env q ''google'')))" by auto
  with liveSearch_google_selected(1)[OF g, of env q] GoogleGroundingTool_call_calls[of g env q]
  show "c = ToolCall ''google_search_grounding'' q \<or> c = ApiCall ''google_search_grounding'' q"
    by auto
next
  assume "ToolCall ''perplexity_web_search'' q \<in> set (d_calls (fst (dispatchSearch a env q p ns)))"
  with dispatchSearch_calls[of a env q p ns]
  have "ToolCall ''perplexity_web_search'' q \<in> set (d_calls (fst (liveSearch a env q p)))" by auto
  then show "p \<noteq> ''google'' \<or> google_search_grounding a = None"
    by (rule liveSearch_perplexity_only_if)
qed

theorem google_prefers_grounding_witness:
  "google_search_grounding (newLangChainChatAgent allKeys) = Some (newGoogleGroundingTool (Some ''g-key''))
   \<and> perplexity_web_search (newLangChainChatAgent allKeys) \<noteq> None
   \<and> d_calls (fst (liveSearch (newLangChainChatAgent allKeys) (calmEnv 0) ''latest news'' ''google''))
        = ToolCall ''google_search_grounding'' ''latest news''
          # snd (snd (GoogleGroundingTool_call (newGoogleGroundingTool (Some ''g-key'')) (calmEnv 0) ''latest news''))
   \<and> ToolCall ''perplexity_web_search'' ''latest news''
        \<in> set (d_calls (fst (dispatchSearch (newLangChainChatAgent allKeys) (calmEnv 0) ''latest news'' ''openai'' True)))
   \<and> ''openai'' \<noteq> ''google''"
proof -
  have g: "google_search_grounding (newLangChainChatAgent allKeys) = Some (newGoogleGroundingTool (Some ''g-key''))"
    by (simp add: newLangChainChatAgent_def allKeys_def isSet_def)
  have p: "perplexity_web_search (newLangChainChatAgent allKeys) \<noteq> None"
    by (simp add: newLangChainChatAgent_def allKeys_def isSet_def)
  have c: "ToolCall ''perplexity_web_search'' ''latest news''
        \<in> set (d_calls (fst (dispatchSearch (newLangChainChatAgent allKeys) (calmEnv 0) ''latest news'' ''openai'' True)))"
    by code_simp
  from google_prefers_grounding [where a = "newLangChainChatAgent allKeys"
          and g = "newGoogleGroundingTool (Some ''g-key'')" and env = "calmEnv 0"
          and q = "''latest news''" and p = "''openai''" and ns = True]
       g p c
  show ?thesis by blast
qed

text \<open>
  C10. A dispatch writes the dispatcher's cache exactly when it made a live search that
  succeeded; otherwise the cache is left as it was, so neither a failed tool call nor the
  placeholder for a missing tool is stored. After a dispatch whose tool call failed, the
  next dispatch of the same query and provider at a later time makes the same tool call
  and upstream request again.
\<close>

theorem only_successes_are_cached:
  "(dispatchSearch a env q p ns = (d, a')
      \<longrightarrow> searchCache a' =
           (if d_isSearchSuccessful d \<and> d_calls d \<noteq> []
            then (searchCache a)(cacheKeyOf q p \<mapsto>
                   \<lparr>ce_data = \<lparr>cd_content = d_searchContent d, cd_sources = d_searchSources d,
                               cd_toolUsed = d_searchToolUsed d\<rparr>,
                    ce_timestamp = now_store env\<rparr>)
            else searchCache a))
   \<and> (dispatchSearch a env1 q p True = (d1, a1) \<and> \<not> d_isSearchSuccessful d1 \<and> d_calls d1 \<noteq> []
        \<and> now_lookup env1 \<le> now_lookup env2 \<and> now_tool env1 \<le> now_tool env2
      \<longrightarrow> searchCache a1 = searchCache a
        \<and> d_calls (fst (dispatchSearch a1 env2 q p True)) = d_calls d1
        \<and> (\<exists>name cs. d_calls (fst (dispatchSearch a1 env2 q p True)) = ToolCall name q # cs))"
proof (intro conjI impI)
  assume "dispatchSearch a env q p ns = (d, a')"
  then show "searchCache a' =
           (if d_isSearchSuccessful d \<and> d_calls d \<noteq> []
            then (searchCache a)(cacheKeyOf q p \<mapsto>
                   \<lparr>ce_data = \<lparr>cd_content = d_searchContent d, cd_sources = d_searchSources d,
                               cd_toolUsed = d_searchToolUsed d\<rparr>,
                    ce_timestamp = now_store env\<rparr>)
            else searchCache a)"
    by (rule dispatchSearch_cache)
next
  assume h: "dispatchSearch a env1 q p True = (d1, a1) \<and> \<not> d_isSearchSuccessful d1 \<and> d_calls d1 \<noteq> []
        \<and> now_lookup env1 \<le> now_lookup env2 \<and> now_tool env1 \<le> now_tool env2"
  then have f: "dispatchSearch a env1 q p True = (d1, a1)" "\<not> d_isSearchSuccessful d1"
      "d_calls d1 \<noteq> []" "now_lookup env1 \<le> now_lookup env2" "now_tool env1 \<le> now_tool env2"
    by simp_all
  from dispatchSearch_retry(1)[OF f] show "searchCache a1 = searchCache a" by simp
  from dispatchSearch_retry(2)[OF f]
  show "d_calls (fst (dispatchSearch a1 env2 q p True)) = d_calls d1" .
  from dispatchSearch_retry(3)[OF f]
  show "\<exists>name cs. d_calls (fst (dispatchSearch a1 env2 q p True)) = ToolCall name q # cs" .
qed

theorem only_successes_are_cached_witness:
  "(d_isSearchSuccessful (fst (dispatchSearch (newLangChainChatAgent allKeys) (calmEnv 7) ''latest news'' ''openai'' True))
   \<and> d_calls (fst (dispatchSearch (newLangChainChatAgent allKeys) (calmEnv 7) ''latest news'' ''openai'' True)) \<noteq> []
   \<and> searchCache (snd (dispatchSearch (newLangChainChatAgent allKeys) (calmEnv 7) ''latest news'' ''openai'' True))
       = (searchCache (newLangChainChatAgent allKeys))(cacheKeyOf ''latest news'' ''openai'' \<mapsto>
           \<lparr>ce_data = \<lparr>cd_content = d_searchContent (fst (dispatchSearch (newLangChainChatAgent allKeys) (calmEnv 7) ''latest news'' ''openai'' True)),
                       cd_sources = d_searchSources (fst (dispatchSearch (newLangChainChatAgent allKeys) (calmEnv 7) ''latest news'' ''openai'' True)),
                       cd_toolUsed = d_searchToolUsed (fst (dispatchSearch (newLangChainChatAgent allKeys) (calmEnv 7) ''latest news'' ''openai'' True))\<rparr>,
            ce_timestamp = now_store (calmEnv 7)\<rparr>))
   \<and> (\<not> d_isSearchSuccessful (fst (dispatchSearch (newLangChainChatAgent allKeys) (stormEnv 0) ''latest news'' ''openai'' True))
   \<and> d_calls (fst (dispatchSearch (newLangChainChatAgent allKeys) (stormEnv 0) ''latest news'' ''openai'' True)) \<noteq> []
   \<and> now_lookup (stormEnv 0) \<le> now_lookup (calmEnv 5) \<and> now_tool (stormEnv 0) \<le> now_tool (calmEnv 5)
   \<and> searchCache (snd (dispatchSearch (newLangChainChatAgent allKeys) (stormEnv 0) ''latest news'' ''openai'' True))
       = searchCache (newLangChainChatAgent allKeys)
   \<and> d_calls (fst (dispatchSearch
                     (snd (dispatchSearch (newLangChainChatAgent allKeys) (stormEnv 0) ''latest news'' ''openai'' True))
                     (calmEnv 5) ''latest news'' ''openai'' True))
       = d_calls (fst (dispatchSearch (newLangChainChatAgent allKeys) (stormEnv 0) ''latest news'' ''openai'' True)))"
proof -
  have s0: "dispatchSearch (newLangChainChatAgent allKeys) (calmEnv 7) ''latest news'' ''openai'' True
          = (fst (dispatchSearch (newLangChainChatAgent allKeys) (calmEnv 7) ''latest news'' ''openai'' True),
             snd (dispatchSearch (newLangChainChatAgent allKeys) (calmEnv 7) ''latest news'' ''openai'' True))"
    by simp
  have s1: "d_isSearchSuccessful (fst (dispatchSearch (newLangChainChatAgent allKeys) (calmEnv 7) ''latest news'' ''openai'' True))"
    by code_simp
  have s2: "d_calls (fst (dispatchSearch (newLangChainChatAgent allKeys) (calmEnv 7) ''latest news'' ''openai'' True)) \<noteq> []"
    by code_simp
  from only_successes_are_cached [where a = "newLangChainChatAgent allKeys" and env = "calmEnv 7"
          and q = "''latest news''" and p = "''openai''" and ns = True
          and d = "fst (dispatchSearch (newLangChainChatAgent allKeys) (calmEnv 7) ''latest news'' ''openai'' True)"
          and a' = "snd (dispatchSearch (newLangChainChatAgent allKeys) (calmEnv 7) ''latest news'' ''openai'' True)"]
       s0 s1 s2
  have A: "d_isSearchSuccessful (fst (dispatchSearch (newLangChainChatAgent allKeys) (calmEnv 7) ''latest news'' ''openai'' True))
   \<and> d_calls (fst (dispatchSearch (newLangChainChatAgent allKeys) (calmEnv 7) ''latest news'' ''openai'' True)) \<noteq> []
   \<and> searchCache (snd (dispatchSearch (newLangChainChatAgent allKeys) (calmEnv 7) ''latest news'' ''openai'' True))
       = (searchCache (newLangChainChatAgent allKeys))(cacheKeyOf ''latest news'' ''openai'' \<mapsto>
           \<lparr>ce_data = \<lparr>cd_content = d_searchContent (fst (dispatchSearch (newLangChainChatAgent allKeys) (calmEnv 7) ''latest news'' ''openai'' True)),
                       cd_sources = d_searchSources (fst (dispatchSearch (newLangChainChatAgent allKeys) (calmEnv 7) ''latest news'' ''openai'' True)),
                       cd_toolUsed = d_searchToolUsed (fst (dispatchSearch (newLangChainChatAgent allKeys) (calmEnv 7) ''latest news'' ''openai'' True))\<rparr>,
            ce_timestamp = now_store (calmEnv 7)\<rparr>)"
    by simp
  have h0: "dispatchSearch (newLangChainChatAgent allKeys) (stormEnv 0) ''latest news'' ''openai'' True
          = (fst (dispatchSearch (newLangChainChatAgent allKeys) (stormEnv 0) ''latest news'' ''openai'' True),
             snd (dispatchSearch (newLangChainChatAgent allKeys) (stormEnv 0) ''latest news'' ''openai'' True))"
    by simp
  have h1: "\<not> d_isSearchSuccessful (fst (dispatchSearch (newLangChainChatAgent allKeys) (stormEnv 0) ''latest news'' ''openai'' True))"
    by code_simp
  have h2: "d_calls (fst (dispatchSearch (newLangChainChatAgent allKeys) (stormEnv 0) ''latest news'' ''openai'' True)) \<noteq> []"
    by code_simp
  have h3: "now_lookup (stormEnv 0) \<le> now_lookup (calmEnv 5)" "now_tool (stormEnv 0) \<le> now_tool (calmEnv 5)"
    by (simp_all add: stormEnv_def calmEnv_def)
  from only_successes_are_cached [where a = "newLangChainChatAgent allKeys" and ?env1.0 = "stormEnv 0"
          and ?env2.0 = "calmEnv 5" and q = "''latest news''" and p = "''openai''"
          and ?d1.0 = "fst (dispatchSearch (newLangChainChatAgent allKeys) (stormEnv 0) ''latest news'' ''openai'' True)"
          and ?a1.0 = "snd (dispatchSearch (newLangChainChatAgent allKeys) (stormEnv 0) ''latest news'' ''openai'' True)"]
       h0 h1 h2 h3
  have B: "\<not> d_isSearchSuccessful (fst (dispatchSearch (newLangChainChatAgent allKeys) (stormEnv 0) ''latest news'' ''openai'' True))
   \<and> d_calls (fst (dispatchSearch (newLangChainChatAgent allKeys) (stormEnv 0) ''latest news'' ''openai'' True)) \<noteq> []
   \<and> now_lookup (stormEnv 0) \<le> now_lookup (calmEnv 5) \<and> now_tool (stormEnv 0) \<le> now_tool (calmEnv 5)
   \<and> searchCache (snd (dispatchSearch (newLangChainChatAgent allKeys) (stormEnv 0) ''latest news'' ''openai'' True))
       = searchCache (newLangChainChatAgent allKeys)
   \<and> d_calls (fst (dispatchSearch
                     (snd (dispatchSearch (newLangChainChatAgent allKeys) (stormEnv 0) ''latest news'' ''openai'' True))
                     (calmEnv 5) ''latest news'' ''openai'' True))
       = d_calls (fst (dispatchSearch (newLangChainChatAgent allKeys) (stormEnv 0) ''latest news'' ''openai'' True))"
    by blast
  from A B show ?thesis by blast
qed

end
